theory Spec2Isabelle
  imports Main "HOL-Library.Multiset"
begin

section \<open>The radar factory (src/client/src/util/factory.js)\<close>

text \<open>
  The file builds the radar model from normalized rows (\<open>plotRadar\<close>), holds the three
  ingestion callbacks (public sheet, protected sheet, CSV file), the source-resolution flow of
  \<open>GoogleSheet\<close> and the locator \<open>GoogleSheetInput.build\<close>.

  A JavaScript string is a \<^typ>\<open>string\<close> that holds its UTF-8 bytes; where the code
  looks at characters (the regular expressions) the bytes are grouped into characters
  first. \<open>undefined\<close> is \<^const>\<open>None\<close> of an option type. Everything the code does to the page or to a
  collaborator is an \<open>event\<close>; a function of the source becomes a function that returns
  the events it caused, in order, with either the value it returns or the exception it throws.
\<close>

subsection \<open>Strings\<close>

definition toLowerChar :: "char \<Rightarrow> char" where
  "toLowerChar c =
     (let n = (of_char c :: nat) in if 65 \<le> n \<and> n \<le> 90 then char_of (n + 32) else c)"

definition toUpperChar :: "char \<Rightarrow> char" where
  "toUpperChar c =
     (let n = (of_char c :: nat) in if 97 \<le> n \<and> n \<le> 122 then char_of (n - 32) else c)"

text \<open>
  \<open>toLowerCase\<close> is used by the code for one thing, the comparison of the lower-cased
  \<open>isNew\<close> value with \<open>true\<close>. No character outside ASCII lower-cases to one of the
  letters of \<open>true\<close>, so mapping \<open>A..Z\<close> to \<open>a..z\<close> and leaving every other byte
  decides that comparison as the full mapping does.
\<close>

definition toLowerCase :: "string \<Rightarrow> string" where
  "toLowerCase s = map toLowerChar s"

text \<open>
  What lodash \<open>capitalize\<close> does to a string of ASCII characters: the first character
  upper-cased, the rest lower-cased. It is the instance used in the examples, whose names
  are ASCII; the functions of this file take \<open>capitalize\<close> as a parameter.
\<close>

definition ascii_capitalize :: "string \<Rightarrow> string" where
  "ascii_capitalize s = (case toLowerCase s of [] \<Rightarrow> [] | c # cs \<Rightarrow> toUpperChar c # cs)"

definition endsWith :: "string \<Rightarrow> string \<Rightarrow> bool" where
  "endsWith s suffix =
     (length suffix \<le> length s \<and> drop (length s - length suffix) s = suffix)"

text \<open>String concatenation with a value that may be \<open>undefined\<close>.\<close>

definition js_string :: "string option \<Rightarrow> string" where
  "js_string v = (case v of None \<Rightarrow> ''undefined'' | Some s \<Rightarrow> s)"

text \<open>\<open>!v\<close> for a value that is a string or \<open>undefined\<close>.\<close>

definition falsy :: "string option \<Rightarrow> bool" where
  "falsy v = (case v of None \<Rightarrow> True | Some s \<Rightarrow> s = [])"

subsection \<open>Exceptions\<close>

text \<open>
  The texts of \<open>ExceptionMessages\<close> live outside this file, so a message is kept as a
  list of parts: literal text and the named constants.
\<close>

datatype msg_part = Literal string | TOO_MANY_RINGS | MISSING_HEADERS | MISSING_CONTENT

type_synonym message = "msg_part list"

datatype js_error =
    MalformedDataError message
  | SheetNotFoundError message
  | TypeError
  | URIError
  | ResponseError int
  | OtherError


subsection \<open>The model objects\<close>

text \<open>A row after sanitization, as \<open>plotRadar\<close> receives it: every field a string.\<close>

record NormalizedBlip =
  name :: string
  ring :: string
  quadrant :: string
  isNew :: string
  topic :: string
  description :: string

text \<open>
  Modelled from the spec: the classes \<open>Ring\<close>, \<open>Blip\<close>, \<open>Quadrant\<close> and \<open>Radar\<close> of
  \<open>../models\<close> are not in this file. Section 3 of the specification gives their fields;
  \<open>Quadrant.add\<close> appends a blip, \<open>Radar.addQuadrant\<close> and \<open>Radar.addAlternative\<close>
  append, \<open>Radar.setCurrentSheet\<close> stores the name.
\<close>

record Ring =
  ring_name :: string
  ring_order :: nat

record Blip =
  blip_name :: string
  blip_ring :: "Ring option"
  blip_isNew :: bool
  blip_topic :: string
  blip_description :: string

record Quadrant =
  quadrant_name :: string
  quadrant_blips :: "Blip list"

record Radar =
  radar_quadrants :: "Quadrant list"
  radar_alternatives :: "string list"
  radar_currentSheet :: "string option"

definition new_Quadrant :: "string \<Rightarrow> Quadrant" where
  "new_Quadrant n = \<lparr>quadrant_name = n, quadrant_blips = []\<rparr>"

definition Quadrant_add :: "Quadrant \<Rightarrow> Blip \<Rightarrow> Quadrant" where
  "Quadrant_add q b = q\<lparr>quadrant_blips := quadrant_blips q @ [b]\<rparr>"

definition new_Radar :: Radar where
  "new_Radar = \<lparr>radar_quadrants = [], radar_alternatives = [], radar_currentSheet = None\<rparr>"

definition addQuadrant :: "Radar \<Rightarrow> Quadrant \<Rightarrow> Radar" where
  "addQuadrant r q = r\<lparr>radar_quadrants := radar_quadrants r @ [q]\<rparr>"

definition addAlternative :: "Radar \<Rightarrow> string \<Rightarrow> Radar" where
  "addAlternative r sheetName = r\<lparr>radar_alternatives := radar_alternatives r @ [sheetName]\<rparr>"

definition setCurrentSheet :: "Radar \<Rightarrow> string option \<Rightarrow> Radar" where
  "setCurrentSheet r sheetName = r\<lparr>radar_currentSheet := sheetName\<rparr>"

subsection \<open>Effects\<close>

datatype event =
    SetDocumentTitle string
  | RemoveLoading
  | NewRing string nat
  | NewQuadrant string
  | NewBlip Blip
  | NewRadar
  | Plot int Radar
  | ShowLoading
  | ShowForm
  | ConsoleError js_error
  | ConsoleLog "string option"
  | ShowErrorMessage message
  | ShowUnauthorized string
  | ListenDOMContentLoaded
  | SheetValidate string
  | TabletopInit
  | LoadGoogle
  | Login bool
  | ProcessSheetResponse "string option"
  | RemoveContent
  | CsvFetch string

type_synonym 'a eff = "event list \<times> (js_error + 'a)"

definition ret :: "'a \<Rightarrow> 'a eff" where
  "ret x = ([], Inr x)"

definition throw :: "js_error \<Rightarrow> 'a eff" where
  "throw e = ([], Inl e)"

definition emit :: "event \<Rightarrow> unit eff" where
  "emit ev = ([ev], Inr ())"

text \<open>Sequencing: the second statement runs only when the first did not throw.\<close>

definition bind :: "'a eff \<Rightarrow> ('a \<Rightarrow> 'b eff) \<Rightarrow> 'b eff" where
  "bind m f =
     (case snd m of
        Inl e \<Rightarrow> (fst m, Inl e)
      | Inr x \<Rightarrow> (fst m @ fst (f x), snd (f x)))"

text \<open>\<open>try { m } catch (exception) { h(exception) }\<close>\<close>

definition try_catch :: "'a eff \<Rightarrow> (js_error \<Rightarrow> 'a eff) \<Rightarrow> 'a eff" where
  "try_catch m h =
     (case snd m of
        Inl e \<Rightarrow> (fst m @ fst (h e), snd (h e))
      | Inr x \<Rightarrow> m)"

subsection \<open>The collaborators\<close>

text \<open>A raw row: its cells by column label.\<close>

type_synonym raw_row = "(string \<times> string) list"

text \<open>
  \<open>ContentValidator\<close>, \<open>InputSanitizer\<close>, \<open>QueryParams\<close> and lodash \<open>capitalize\<close>
  are required from other files. The functions of this file take them as a parameter: for
  the two checks of the validator built on a list of column names, the exception thrown
  if any; for the sanitizers and the query parser, the value returned or the exception
  thrown; for \<open>capitalize\<close>, the string returned.
\<close>

record collaborators =
  verifyContent :: "string list \<Rightarrow> js_error option"
  verifyHeaders :: "string list \<Rightarrow> js_error option"
  sanitize :: "raw_row \<Rightarrow> js_error + NormalizedBlip"
  sanitizeForProtectedSheet :: "string list \<Rightarrow> string list option \<Rightarrow> js_error + NormalizedBlip"
  QueryParams :: "string \<Rightarrow> js_error + (string \<times> string) list"
  capitalize :: "string \<Rightarrow> string"

subsection \<open>plotRadar\<close>

text \<open>
  lodash \<open>uniqBy\<close> keeps, in order, each element whose key has not been seen before.
\<close>

fun baseUniq :: "('a \<Rightarrow> 'k) \<Rightarrow> 'k list \<Rightarrow> 'a list \<Rightarrow> 'a list" where
  "baseUniq f seen [] = []"
| "baseUniq f seen (x # xs) =
     (if f x \<in> set seen then baseUniq f seen xs else x # baseUniq f (f x # seen) xs)"

definition uniqBy :: "'a list \<Rightarrow> ('a \<Rightarrow> 'k) \<Rightarrow> 'a list" where
  "uniqBy xs f = baseUniq f [] xs"

definition maxRings :: nat where
  "maxRings = 4"

text \<open>
  \<open>_.each(rings, function (ringName, i) ...)\<close>: the fifth distinct ring throws, the others
  are entered in \<open>ringMap\<close>. Every key read from \<open>ringMap\<close> later has been written here,
  so the object is a map from ring names.
\<close>

fun each_ring :: "nat \<Rightarrow> string list \<Rightarrow> (string \<rightharpoonup> Ring) \<Rightarrow> (string \<rightharpoonup> Ring) eff" where
  "each_ring i [] ringMap = ret ringMap"
| "each_ring i (ringName # rest) ringMap =
     (if i = maxRings then throw (MalformedDataError [TOO_MANY_RINGS])
      else bind (emit (NewRing ringName i)) (\<lambda>_.
           each_ring (Suc i) rest
             (ringMap(ringName \<mapsto> \<lparr>ring_name = ringName, ring_order = i\<rparr>))))"

text \<open>
  \<open>var quadrants = {}\<close> is a plain object used as a dictionary: its own properties in
  insertion order, and behind them the properties every object inherits from
  \<open>Object.prototype\<close>, which are functions (or, for \<open>__proto__\<close>, an object) and so truthy.
\<close>

datatype 'a js_prop = Own 'a | Inherited | Absent

definition object_prototype_keys :: "string list" where
  "object_prototype_keys =
     [''constructor'', ''hasOwnProperty'', ''isPrototypeOf'', ''propertyIsEnumerable'',
      ''toLocaleString'', ''toString'', ''valueOf'', ''__proto__'',
      ''__defineGetter__'', ''__defineSetter__'', ''__lookupGetter__'', ''__lookupSetter__'']"

definition js_get :: "(string \<times> 'a) list \<Rightarrow> string \<Rightarrow> 'a js_prop" where
  "js_get obj k =
     (case map_of obj k of
        Some v \<Rightarrow> Own v
      | None \<Rightarrow> if k \<in> set object_prototype_keys then Inherited else Absent)"

fun js_put :: "(string \<times> 'a) list \<Rightarrow> string \<Rightarrow> 'a \<Rightarrow> (string \<times> 'a) list" where
  "js_put [] k v = [(k, v)]"
| "js_put ((k', v') # rest) k v =
     (if k' = k then (k, v) # rest else (k', v') # js_put rest k v)"

text \<open>
  The order in which \<open>_.each\<close> visits the own properties of an object: the keys that are
  array indices first, in ascending numeric order, then the others in insertion order.
\<close>

definition is_digit :: "char \<Rightarrow> bool" where
  "is_digit c = (48 \<le> (of_char c :: nat) \<and> (of_char c :: nat) \<le> 57)"

definition decimal :: "string \<Rightarrow> nat" where
  "decimal s = foldl (\<lambda>n c. 10 * n + ((of_char c :: nat) - 48)) 0 s"

definition is_array_index :: "string \<Rightarrow> bool" where
  "is_array_index s =
     (case s of
        [] \<Rightarrow> False
      | c # cs \<Rightarrow>
          list_all is_digit s \<and> (if c = CHR ''0'' then cs = [] else True)
          \<and> decimal s < 4294967295)"

definition own_values :: "(string \<times> 'a) list \<Rightarrow> 'a list" where
  "own_values obj =
     map snd (sort_key (\<lambda>kv. decimal (fst kv)) (filter (\<lambda>kv. is_array_index (fst kv)) obj)
              @ filter (\<lambda>kv. \<not> is_array_index (fst kv)) obj)"

definition new_Blip :: "(string \<rightharpoonup> Ring) \<Rightarrow> NormalizedBlip \<Rightarrow> Blip" where
  "new_Blip ringMap blip =
     \<lparr>blip_name = name blip, blip_ring = ringMap (ring blip),
      blip_isNew = (toLowerCase (isNew blip) = ''true''),
      blip_topic = topic blip, blip_description = description blip\<rparr>"

text \<open>
  \<open>_.each(blips, function (blip) ...)\<close>. In
  \<open>quadrants[blip.quadrant].add(new Blip(...))\<close> the method is looked up first, the
  argument is built next, and the call throws a \<open>TypeError\<close> when what was found is not a
  function: the inherited properties have no \<open>add\<close>.
\<close>

fun each_blip ::
  "collaborators \<Rightarrow> (string \<rightharpoonup> Ring) \<Rightarrow> NormalizedBlip list \<Rightarrow> (string \<times> Quadrant) list
     \<Rightarrow> (string \<times> Quadrant) list eff" where
  "each_blip deps ringMap [] quadrants = ret quadrants"
| "each_blip deps ringMap (blip # rest) quadrants =
     bind (case js_get quadrants (quadrant blip) of
             Absent \<Rightarrow>
               bind (emit (NewQuadrant (capitalize deps (quadrant blip)))) (\<lambda>_.
               ret (js_put quadrants (quadrant blip)
                      (new_Quadrant (capitalize deps (quadrant blip)))))
           | _ \<Rightarrow> ret quadrants) (\<lambda>quadrants1.
     case js_get quadrants1 (quadrant blip) of
       Absent \<Rightarrow> throw TypeError
     | Inherited \<Rightarrow> bind (emit (NewBlip (new_Blip ringMap blip))) (\<lambda>_. throw TypeError)
     | Own q \<Rightarrow>
         bind (emit (NewBlip (new_Blip ringMap blip))) (\<lambda>_.
         each_blip deps ringMap rest
           (js_put quadrants1 (quadrant blip) (Quadrant_add q (new_Blip ringMap blip)))))"

text \<open>
  \<open>alternativeRadars.forEach(...)\<close> behind the guard
  \<open>alternativeRadars !== undefined || true\<close>: on \<open>undefined\<close> the guard still lets the
  call through, and the call throws.
\<close>

definition add_alternatives :: "Radar \<Rightarrow> string list option \<Rightarrow> Radar eff" where
  "add_alternatives radar alternativeRadars =
     (if alternativeRadars \<noteq> None \<or> True then
        (case alternativeRadars of
           None \<Rightarrow> throw TypeError
         | Some sheetNames \<Rightarrow> ret (foldl addAlternative radar sheetNames))
      else ret radar)"

definition set_current :: "Radar \<Rightarrow> string option \<Rightarrow> Radar eff" where
  "set_current radar currentRadarName =
     (if currentRadarName \<noteq> None \<or> True then ret (setCurrentSheet radar currentRadarName)
      else ret radar)"

definition display_title :: "string \<Rightarrow> string" where
  "display_title title =
     (if endsWith title ''.csv'' then take (length title - 4) title else title)"

definition plot_size :: "int \<Rightarrow> int" where
  "plot_size innerHeight = (if innerHeight - 133 < 620 then 620 else innerHeight - 133)"

definition plotRadar ::
  "collaborators \<Rightarrow> int \<Rightarrow> string \<Rightarrow> NormalizedBlip list \<Rightarrow> string option
     \<Rightarrow> string list option \<Rightarrow> unit eff" where
  "plotRadar deps innerHeight title blips currentRadarName alternativeRadars =
     bind (emit (SetDocumentTitle (display_title title))) (\<lambda>_.
     bind (emit RemoveLoading) (\<lambda>_.
     bind (each_ring 0 (map ring (uniqBy blips ring)) Map.empty) (\<lambda>ringMap.
     bind (each_blip deps ringMap blips []) (\<lambda>quadrants.
     bind (emit NewRadar) (\<lambda>_.
     bind (add_alternatives (foldl addQuadrant new_Radar (own_values quadrants))
             alternativeRadars) (\<lambda>radar1.
     bind (set_current radar1 currentRadarName) (\<lambda>radar2.
     emit (Plot (plot_size innerHeight) radar2))))))))"

subsection \<open>The pages\<close>

definition default_title :: string where
  "default_title = ''MCS Tech Radar; Azure CoE Team''"

definition sheet_not_found_text :: string where
  "sheet_not_found_text =
     ''Oops! We can'' @ [CHR 0x27] @ ''t find the Google Sheet you'' @ [CHR 0x27] @ ''ve entered''"

definition plotLoading :: "unit eff" where
  "plotLoading = bind (emit ShowLoading) (\<lambda>_. emit (SetDocumentTitle default_title))"

text \<open>
  \<open>plotErrorMessage\<close>: the message is the fixed text followed by the exception's own for a
  \<open>MalformedDataError\<close>, the exception's own for a \<open>SheetNotFoundError\<close>, and the fixed
  text alone, with the exception logged, for anything else. \<open>ShowErrorMessage\<close> stands
  for the banner, the message block, the links and the footer appended to the page.
\<close>

definition plotErrorMessage :: "js_error \<Rightarrow> unit eff" where
  "plotErrorMessage exception =
     bind (emit (SetDocumentTitle default_title)) (\<lambda>_.
     bind (emit RemoveLoading) (\<lambda>_.
     (case exception of
        MalformedDataError m \<Rightarrow> emit (ShowErrorMessage (Literal sheet_not_found_text # m))
      | SheetNotFoundError m \<Rightarrow> emit (ShowErrorMessage m)
      | _ \<Rightarrow>
          bind (emit (ConsoleError exception)) (\<lambda>_.
          emit (ShowErrorMessage [Literal sheet_not_found_text])))))"


subsection \<open>Helpers of the callbacks\<close>

definition verify :: "js_error option \<Rightarrow> unit eff" where
  "verify r = (case r of None \<Rightarrow> ret () | Some e \<Rightarrow> throw e)"

definition lift :: "js_error + 'a \<Rightarrow> 'a eff" where
  "lift r = ([], r)"

text \<open>\<open>_.map(xs, f)\<close> and \<open>xs.forEach(f)\<close> for a callback that may throw.\<close>

fun map_each :: "('a \<Rightarrow> 'b eff) \<Rightarrow> 'a list \<Rightarrow> 'b list eff" where
  "map_each f [] = ret []"
| "map_each f (x # xs) = bind (f x) (\<lambda>y. bind (map_each f xs) (\<lambda>ys. ret (y # ys)))"

fun forEach :: "('a \<Rightarrow> unit eff) \<Rightarrow> 'a list \<Rightarrow> unit eff" where
  "forEach f [] = ret ()"
| "forEach f (x # xs) = bind (f x) (\<lambda>_. forEach f xs)"

definition first :: "'a list \<Rightarrow> 'a option" where
  "first xs = (case xs of [] \<Rightarrow> None | x # _ \<Rightarrow> Some x)"

text \<open>What the remote services answer during one page load.\<close>

record tabletop_sheet =
  columnNames :: "string list"
  all_rows :: "raw_row list"

record tabletop =
  foundSheetNames :: "string list"
  sheets :: "string option \<Rightarrow> tabletop_sheet option"
  googleSheetName :: string

record csv_data =
  columns :: "string list"
  csv_rows :: "raw_row list"

record remote =
  validate_error :: "js_error option"
  tabletop_answer :: tabletop
  google_loaded :: bool
  logged_in :: bool
  currentUser :: string
  sheet_response :: "js_error + (string \<times> string list list \<times> string list)"
  csv_response :: "js_error + csv_data"

subsection \<open>GoogleSheet\<close>

text \<open>
  \<open>createBlips\<close>, the callback handed to Tabletop: the whole body is inside
  \<open>try ... catch (exception) { plotErrorMessage(exception) }\<close>. \<open>tabletop.sheets(name)\<close>
  is \<open>undefined\<close> for a tab that does not exist, and reading a property of it throws.
\<close>

definition createBlips :: "collaborators \<Rightarrow> int \<Rightarrow> string option \<Rightarrow> tabletop \<Rightarrow> unit eff" where
  "createBlips deps innerHeight sheetName tabletop =
     try_catch
       (let sheetName1 = (if falsy sheetName then first (foundSheetNames tabletop) else sheetName)
        in case sheets tabletop sheetName1 of
             None \<Rightarrow> throw TypeError
           | Some sheet \<Rightarrow>
               bind (verify (verifyContent deps (columnNames sheet))) (\<lambda>_.
               bind (verify (verifyHeaders deps (columnNames sheet))) (\<lambda>_.
               bind (map_each (\<lambda>row. lift (sanitize deps row)) (all_rows sheet)) (\<lambda>blips.
               plotRadar deps innerHeight
                 (googleSheetName tabletop @ '' - '' @ js_string sheetName1)
                 blips sheetName1 (Some (foundSheetNames tabletop))))))
       plotErrorMessage"

text \<open>
  \<open>createBlipsForProtectedSheet\<close>: the header row \<open>values[0]\<close> is validated once for
  every row, then shifted off; the remaining rows are sanitized against it. There is no
  \<open>try\<close> here: an exception leaves the function.
\<close>

definition createBlipsForProtectedSheet ::
  "collaborators \<Rightarrow> int \<Rightarrow> string option \<Rightarrow> string \<Rightarrow> string list list \<Rightarrow> string list
     \<Rightarrow> unit eff" where
  "createBlipsForProtectedSheet deps innerHeight sheetName documentTitle values sheetNames =
     (let sheetName1 = (if falsy sheetName then first sheetNames else sheetName) in
      bind (forEach (\<lambda>value.
              case first values of
                None \<Rightarrow> throw TypeError
              | Some header \<Rightarrow>
                  bind (verify (verifyContent deps header)) (\<lambda>_.
                  verify (verifyHeaders deps header))) values) (\<lambda>_.
      bind (map_each (\<lambda>blip. lift (sanitizeForProtectedSheet deps blip (first values)))
              (drop 1 values)) (\<lambda>blips.
      plotRadar deps innerHeight (documentTitle @ '' - '' @ js_string sheetName1) blips sheetName1
        (Some sheetNames))))"




subsection \<open>URLs\<close>

text \<open>
  \<open>decodeURIComponent\<close>: a \<open>%\<close> must be followed by two hexadecimal digits, and the
  escaped bytes from \<open>0x80\<close> up must form well-formed UTF-8; otherwise \<open>URIError\<close>. The
  result keeps the bytes.
\<close>

definition hex_value :: "char \<Rightarrow> nat option" where
  "hex_value c =
     (let n = (of_char c :: nat) in
      if 48 \<le> n \<and> n \<le> 57 then Some (n - 48)
      else if 65 \<le> n \<and> n \<le> 70 then Some (n - 55)
      else if 97 \<le> n \<and> n \<le> 102 then Some (n - 87)
      else None)"

datatype token = Plain char | Escaped nat | Malformed

fun tokens :: "string \<Rightarrow> token list" where
  "tokens [] = []"
| "tokens (c # s) =
     (if c \<noteq> CHR ''%'' then Plain c # tokens s
      else (case s of
              a # b # rest \<Rightarrow>
                (case hex_value a of
                   None \<Rightarrow> [Malformed]
                 | Some x \<Rightarrow>
                     (case hex_value b of
                        None \<Rightarrow> [Malformed]
                      | Some y \<Rightarrow> Escaped (16 * x + y) # tokens rest))
            | _ \<Rightarrow> [Malformed]))"

definition continuation :: "nat \<Rightarrow> bool" where
  "continuation b = (128 \<le> b \<and> b \<le> 191)"

definition prepend :: "string \<Rightarrow> js_error + string \<Rightarrow> js_error + string" where
  "prepend cs r = (case r of Inl e \<Rightarrow> Inl e | Inr s \<Rightarrow> Inr (cs @ s))"

fun decode_tokens :: "token list \<Rightarrow> js_error + string" where
  "decode_tokens [] = Inr []"
| "decode_tokens (Malformed # ts) = Inl URIError"
| "decode_tokens (Plain c # ts) = prepend [c] (decode_tokens ts)"
| "decode_tokens (Escaped b # ts) =
     (if b < 128 then prepend [char_of b] (decode_tokens ts)
      else if 194 \<le> b \<and> b \<le> 223 then
        (case ts of
           Escaped b1 # rest \<Rightarrow>
             if continuation b1 then prepend [char_of b, char_of b1] (decode_tokens rest)
             else Inl URIError
         | _ \<Rightarrow> Inl URIError)
      else if 224 \<le> b \<and> b \<le> 239 then
        (case ts of
           Escaped b1 # Escaped b2 # rest \<Rightarrow>
             if (if b = 224 then 160 \<le> b1 \<and> b1 \<le> 191
                 else if b = 237 then 128 \<le> b1 \<and> b1 \<le> 159
                 else continuation b1) \<and> continuation b2
             then prepend [char_of b, char_of b1, char_of b2] (decode_tokens rest)
             else Inl URIError
         | _ \<Rightarrow> Inl URIError)
      else if 240 \<le> b \<and> b \<le> 244 then
        (case ts of
           Escaped b1 # Escaped b2 # Escaped b3 # rest \<Rightarrow>
             if (if b = 240 then 144 \<le> b1 \<and> b1 \<le> 191
                 else if b = 244 then 128 \<le> b1 \<and> b1 \<le> 143
                 else continuation b1) \<and> continuation b2 \<and> continuation b3
             then prepend [char_of b, char_of b1, char_of b2, char_of b3] (decode_tokens rest)
             else Inl URIError
         | _ \<Rightarrow> Inl URIError)
      else Inl URIError)"

definition decodeURIComponent :: "string \<Rightarrow> js_error + string" where
  "decodeURIComponent s = decode_tokens (tokens s)"

text \<open>\<open>url.replace(/\+/g, ' ')\<close>\<close>

definition plus_to_space :: "string \<Rightarrow> string" where
  "plus_to_space s = map (\<lambda>c. if c = CHR ''+'' then CHR '' '' else c) s"

text \<open>
  The characters of a string: its UTF-8 bytes grouped by the length the first byte of each
  group announces.
\<close>

definition utf8_length :: "char \<Rightarrow> nat" where
  "utf8_length c =
     (let n = (of_char c :: nat) in
      if n < 192 then 1 else if n < 224 then 2 else if n < 240 then 3 else 4)"

fun js_chars :: "string \<Rightarrow> string list" where
  "js_chars [] = []"
| "js_chars (c # s) =
     (c # take (utf8_length c - 1) s) # js_chars (drop (utf8_length c - 1) s)"

text \<open>
  The regular expression of \<open>DomainName\<close>, \<open>.+:\/\/([^\\/]+)\<close>, by backtracking: from
  the leftmost start that works, \<open>.+\<close> takes as many characters other than line
  terminators as it can and gives back until \<open>://\<close> and a non-empty run of characters
  other than slash and backslash follow; the run is the group. The line terminators are
  line feed, carriage return, U+2028 and U+2029.
\<close>

definition is_line_terminator :: "string \<Rightarrow> bool" where
  "is_line_terminator ch =
     (ch = [CHR 0x0A] \<or> ch = [CHR 0x0D] \<or> ch = [CHR 0xE2, CHR 0x80, CHR 0xA8]
      \<or> ch = [CHR 0xE2, CHR 0x80, CHR 0xA9])"

definition not_slash :: "string \<Rightarrow> bool" where
  "not_slash ch = (if ch = ''/'' then False else ch \<noteq> [CHR 0x5C])"

definition scheme_tail :: "string list \<Rightarrow> string option" where
  "scheme_tail s =
     (if take 3 s = ['':'', ''/'', ''/''] \<and> takeWhile not_slash (drop 3 s) \<noteq> []
      then Some (concat (takeWhile not_slash (drop 3 s))) else None)"

fun dot_plus :: "string list \<Rightarrow> string option" where
  "dot_plus [] = None"
| "dot_plus (c # cs) =
     (case (if is_line_terminator c then None else dot_plus cs) of
        Some g \<Rightarrow> Some g
      | None \<Rightarrow> scheme_tail (c # cs))"

fun domain_exec :: "string list \<Rightarrow> string option" where
  "domain_exec [] = None"
| "domain_exec (c # cs) =
     (case (if is_line_terminator c then None else dot_plus cs) of
        Some g \<Rightarrow> Some g
      | None \<Rightarrow> domain_exec cs)"

definition DomainName :: "string \<Rightarrow> js_error + string option" where
  "DomainName url =
     (case decodeURIComponent (plus_to_space url) of
        Inl e \<Rightarrow> Inl e
      | Inr s \<Rightarrow> Inr (domain_exec (js_chars s)))"

text \<open>
  \<open>FileName\<close>: the regular expression \<open>([^\\/]+)$\<close> finds the run of characters other
  than slash and backslash that ends the decoded string; without one the url is returned
  as it came.
\<close>

definition FileName :: "string \<Rightarrow> js_error + string" where
  "FileName url =
     (case decodeURIComponent (plus_to_space url) of
        Inl e \<Rightarrow> Inl e
      | Inr s \<Rightarrow>
          (let str = concat (rev (takeWhile not_slash (rev (js_chars s)))) in
           if str = [] then Inr url else Inr str))"

subsection \<open>CSVDocument\<close>

definition CSVDocument_createBlips ::
  "collaborators \<Rightarrow> int \<Rightarrow> string \<Rightarrow> csv_data \<Rightarrow> unit eff" where
  "CSVDocument_createBlips deps innerHeight url data =
     try_catch
       (bind (verify (verifyContent deps (columns data))) (\<lambda>_.
        bind (verify (verifyHeaders deps (columns data))) (\<lambda>_.
        bind (map_each (\<lambda>row. lift (sanitize deps row)) (csv_rows data)) (\<lambda>blips.
        bind (lift (FileName url)) (\<lambda>title.
        plotRadar deps innerHeight title blips (Some ''CSV File'') (Some []))))))
       plotErrorMessage"

text \<open>
  \<open>d3.csv(url).then(createBlips)\<close>: a failed fetch rejects the promise, and nothing in
  this file handles the rejection.
\<close>

definition CSVDocument_build :: "collaborators \<Rightarrow> remote \<Rightarrow> int \<Rightarrow> string \<Rightarrow> unit eff" where
  "CSVDocument_build deps r innerHeight url =
     bind (emit (CsvFetch url)) (\<lambda>_.
     (case csv_response r of
        Inl e \<Rightarrow> throw e
      | Inr data \<Rightarrow> CSVDocument_createBlips deps innerHeight url data))"

subsection \<open>GoogleSheetInput\<close>

text \<open>
  \<open>window.location.href.match(/sheetId(.*)/)[0]\<close>: from the first \<open>sheetId\<close> to the
  next line terminator or the end.
\<close>

fun match_sheetId :: "string \<Rightarrow> string option" where
  "match_sheetId [] = None"
| "match_sheetId (c # cs) =
     (if take 7 (c # cs) = ''sheetId''
      then Some (''sheetId''
                   @ concat (takeWhile (\<lambda>x. \<not> is_line_terminator x)
                               (js_chars (drop 7 (c # cs)))))
      else match_sheetId cs)"

text \<open>
  What \<open>GoogleSheetInput.build\<close> ends with: \<open>init().build()\<close> on a \<open>CSVDocument\<close>, the
  same on a \<open>GoogleSheet\<close>, or the form.
\<close>

datatype source =
    CSV string
  | GoogleSheetSource string "string option"
  | FormPrompt

definition truthy :: "string option \<Rightarrow> bool" where
  "truthy v = (case v of None \<Rightarrow> False | Some s \<Rightarrow> s \<noteq> [])"

text \<open>
  The two conditions of \<open>build\<close>, with the short circuit of \<open>&&\<close>:
  \<open>queryParams.sheetId.endsWith('csv')\<close> is evaluated whenever \<open>domainName\<close> is truthy, and
  throws when \<open>queryParams\<close> has no \<open>sheetId\<close>.
\<close>

definition is_csv :: "string option \<Rightarrow> (string \<times> string) list \<Rightarrow> bool eff" where
  "is_csv domainName queryParams =
     (if truthy domainName then
        (case map_of queryParams ''sheetId'' of
           None \<Rightarrow> throw TypeError
         | Some sheetId \<Rightarrow> ret (endsWith sheetId ''csv''))
      else ret False)"

definition is_google_sheet :: "string option \<Rightarrow> (string \<times> string) list \<Rightarrow> bool" where
  "is_google_sheet domainName queryParams =
     (truthy domainName \<and> endsWith (js_string domainName) ''google.com''
      \<and> truthy (map_of queryParams ''sheetId''))"

definition GoogleSheetInput_build :: "collaborators \<Rightarrow> string \<Rightarrow> string \<Rightarrow> source eff" where
  "GoogleSheetInput_build deps search href =
     bind (lift (DomainName (drop 1 search))) (\<lambda>domainName.
     bind (case match_sheetId href of
             None \<Rightarrow> ret []
           | Some queryString \<Rightarrow> lift (QueryParams deps queryString)) (\<lambda>queryParams.
     bind (is_csv domainName queryParams) (\<lambda>csv.
     if csv then
       bind plotLoading (\<lambda>_. ret (CSV (js_string (map_of queryParams ''sheetId''))))
     else if is_google_sheet domainName queryParams then
       bind (emit (ConsoleLog (map_of queryParams ''sheetName''))) (\<lambda>_.
       bind plotLoading (\<lambda>_.
       ret (GoogleSheetSource (js_string (map_of queryParams ''sheetId''))
              (map_of queryParams ''sheetName''))))
     else
       bind (emit (SetDocumentTitle default_title)) (\<lambda>_.
       bind (emit ShowForm) (\<lambda>_. ret FormPrompt)))))"

subsection \<open>Instances of the collaborators\<close>

text \<open>
  Modelled from the spec: \<open>ContentValidator\<close> (section 4.2) is not in this file. The
  content check fails when there is nothing to check, the header check unless every
  required field name is among the headers.
\<close>

definition spec_verifyContent :: "string list \<Rightarrow> js_error option" where
  "spec_verifyContent labels =
     (if labels = [] then Some (MalformedDataError [MISSING_CONTENT]) else None)"

definition spec_verifyHeaders :: "string list \<Rightarrow> js_error option" where
  "spec_verifyHeaders labels =
     (if list_all (\<lambda>field. field \<in> set labels)
           [''name'', ''ring'', ''quadrant'', ''isNew'', ''description'']
      then None else Some (MalformedDataError [MISSING_HEADERS]))"

text \<open>
  Modelled from the spec: \<open>InputSanitizer\<close> (section 4.3) is not in this file. Both
  entry points trim every field and leave a missing column blank; the positional one pairs
  the values of a row with the header labels by index first.
\<close>

definition is_space :: "char \<Rightarrow> bool" where
  "is_space c = (c = CHR '' '' \<or> c = CHR 0x09 \<or> c = CHR 0x0A \<or> c = CHR 0x0D)"

definition trim :: "string \<Rightarrow> string" where
  "trim s = rev (dropWhile is_space (rev (dropWhile is_space s)))"

definition cell :: "raw_row \<Rightarrow> string \<Rightarrow> string" where
  "cell row label = (case map_of row label of None \<Rightarrow> [] | Some v \<Rightarrow> trim v)"

definition spec_sanitize :: "raw_row \<Rightarrow> js_error + NormalizedBlip" where
  "spec_sanitize row =
     Inr \<lparr>name = cell row ''name'', ring = cell row ''ring'',
          quadrant = cell row ''quadrant'', isNew = cell row ''isNew'',
          topic = cell row ''topic'', description = cell row ''description''\<rparr>"

definition spec_sanitizeForProtectedSheet ::
  "string list \<Rightarrow> string list option \<Rightarrow> js_error + NormalizedBlip" where
  "spec_sanitizeForProtectedSheet row header =
     (case header of
        None \<Rightarrow> Inl TypeError
      | Some names \<Rightarrow> spec_sanitize (zip names row))"

text \<open>
  Modelled from the spec: \<open>QueryParams\<close> is not in this file. Section 6 names the
  parameters it reads, \<open>sheetId\<close> and \<open>sheetName\<close>; the query is cut at every \<open>&\<close>, each
  piece at its first \<open>=\<close>, and both sides are decoded.
\<close>

fun split_on :: "char \<Rightarrow> string \<Rightarrow> string list" where
  "split_on d [] = [[]]"
| "split_on d (c # cs) =
     (case split_on d cs of
        [] \<Rightarrow> [[c]]
      | p # ps \<Rightarrow> if c = d then [] # p # ps else (c # p) # ps)"

definition spec_param :: "string \<Rightarrow> js_error + (string \<times> string)" where
  "spec_param piece =
     (case decodeURIComponent (plus_to_space (takeWhile (\<lambda>c. c \<noteq> CHR ''='') piece)) of
        Inl e \<Rightarrow> Inl e
      | Inr k \<Rightarrow>
          (case decodeURIComponent
                  (plus_to_space (drop 1 (dropWhile (\<lambda>c. c \<noteq> CHR ''='') piece))) of
             Inl e \<Rightarrow> Inl e
           | Inr v \<Rightarrow> Inr (k, v)))"

fun spec_params :: "string list \<Rightarrow> js_error + (string \<times> string) list" where
  "spec_params [] = Inr []"
| "spec_params (piece # pieces) =
     (case spec_param piece of
        Inl e \<Rightarrow> Inl e
      | Inr kv \<Rightarrow> (case spec_params pieces of Inl e \<Rightarrow> Inl e | Inr kvs \<Rightarrow> Inr (kv # kvs)))"

definition spec_QueryParams :: "string \<Rightarrow> js_error + (string \<times> string) list" where
  "spec_QueryParams queryString = spec_params (filter (\<lambda>p. p \<noteq> []) (split_on (CHR ''&'') queryString))"

definition spec_collaborators :: collaborators where
  "spec_collaborators =
     \<lparr>verifyContent = spec_verifyContent, verifyHeaders = spec_verifyHeaders,
      sanitize = spec_sanitize, sanitizeForProtectedSheet = spec_sanitizeForProtectedSheet,
      QueryParams = spec_QueryParams, capitalize = ascii_capitalize\<rparr>"

subsection \<open>What the loops of plotRadar leave behind\<close>

text \<open>
  The events and the values of the two loops, written without the effects; the lemmas
  below show that the loops compute them.
\<close>

fun ring_events :: "nat \<Rightarrow> string list \<Rightarrow> event list" where
  "ring_events i [] = []"
| "ring_events i (ringName # rest) = NewRing ringName i # ring_events (Suc i) rest"

fun enter_rings :: "nat \<Rightarrow> string list \<Rightarrow> (string \<rightharpoonup> Ring) \<Rightarrow> (string \<rightharpoonup> Ring)" where
  "enter_rings i [] ringMap = ringMap"
| "enter_rings i (ringName # rest) ringMap =
     enter_rings (Suc i) rest (ringMap(ringName \<mapsto> \<lparr>ring_name = ringName, ring_order = i\<rparr>))"

definition place ::
  "collaborators \<Rightarrow> (string \<rightharpoonup> Ring) \<Rightarrow> (string \<times> Quadrant) list \<Rightarrow> NormalizedBlip
     \<Rightarrow> (string \<times> Quadrant) list" where
  "place deps ringMap quadrants blip =
     js_put quadrants (quadrant blip)
       (Quadrant_add
          (case map_of quadrants (quadrant blip) of
             None \<Rightarrow> new_Quadrant (capitalize deps (quadrant blip))
           | Some q \<Rightarrow> q)
          (new_Blip ringMap blip))"

definition total_blips :: "Quadrant list \<Rightarrow> nat" where
  "total_blips qs = sum_list (map (\<lambda>q. length (quadrant_blips q)) qs)"

text \<open>What the rendering collaborator was handed, and the events that build the model.\<close>

fun plotted :: "event list \<Rightarrow> (int \<times> Radar) list" where
  "plotted [] = []"
| "plotted (Plot px radar # evs) = (px, radar) # plotted evs"
| "plotted (ev # evs) = plotted evs"

fun model_object :: "event \<Rightarrow> bool" where
  "model_object (NewQuadrant n) = True"
| "model_object (NewBlip b) = True"
| "model_object NewRadar = True"
| "model_object (Plot px radar) = True"
| "model_object ev = False"

text \<open>The position of a ring name among the distinct ring names, in order of first occurrence.\<close>

definition first_position :: "NormalizedBlip list \<Rightarrow> string \<Rightarrow> nat" where
  "first_position blips ringName =
     card (set (takeWhile (\<lambda>x. x \<noteq> ringName) (map ring blips)))"

text \<open>A row with the four fields the model reads, for the examples.\<close>

definition row :: "string \<Rightarrow> string \<Rightarrow> string \<Rightarrow> string \<Rightarrow> NormalizedBlip" where
  "row n r q i = \<lparr>name = n, ring = r, quadrant = q, isNew = i, topic = [], description = []\<rparr>"

subsection \<open>Example inputs\<close>

definition five_rings :: "NormalizedBlip list" where
  "five_rings =
     [row ''a'' ''adopt'' ''tools'' ''true'', row ''b'' ''trial'' ''tools'' ''false'',
      row ''c'' ''assess'' ''tools'' ''false'', row ''d'' ''hold'' ''tools'' ''false'',
      row ''e'' ''retire'' ''tools'' ''false'']"

text \<open>The ring names, the ring map and the radar of a run of \<open>plotRadar\<close> that succeeds.\<close>

definition ring_names :: "NormalizedBlip list \<Rightarrow> string list" where
  "ring_names blips = map ring (uniqBy blips ring)"

definition ringMap_of :: "NormalizedBlip list \<Rightarrow> (string \<rightharpoonup> Ring)" where
  "ringMap_of blips = enter_rings 0 (ring_names blips) Map.empty"

definition quadrants_of :: "collaborators \<Rightarrow> NormalizedBlip list \<Rightarrow> (string \<times> Quadrant) list" where
  "quadrants_of deps blips = foldl (place deps (ringMap_of blips)) [] blips"

definition radar_of ::
  "collaborators \<Rightarrow> NormalizedBlip list \<Rightarrow> string option \<Rightarrow> string list \<Rightarrow> Radar" where
  "radar_of deps blips currentRadarName sheetNames =
     \<lparr>radar_quadrants = own_values (quadrants_of deps blips), radar_alternatives = sheetNames,
      radar_currentSheet = currentRadarName\<rparr>"

definition mixed_case :: "NormalizedBlip list" where
  "mixed_case =
     [row ''a'' ''adopt'' ''Tools'' ''TRUE'', row ''b'' ''Adopt'' ''tools'' ''yes'']"

definition inherited_name :: "NormalizedBlip list" where
  "inherited_name = [row ''a'' ''adopt'' ''constructor'' ''true'']"

definition header_row :: "string list" where
  "header_row = [''name'', ''ring'', ''quadrant'', ''isNew'', ''description'']"

definition protected_values :: "string list list" where
  "protected_values =
     [header_row,
      [''a'', ''adopt'', ''tools'', ''TRUE'', ''first''],
      [''b'', ''trial'', ''tools'', ''false'', ''second'']]"

definition five_ring_rows :: "string list list" where
  "five_ring_rows =
     [[''a'', ''adopt'', ''tools'', ''true'', []], [''b'', ''trial'', ''tools'', ''false'', []],
      [''c'', ''assess'', ''tools'', ''false'', []], [''d'', ''hold'', ''tools'', ''false'', []],
      [''e'', ''retire'', ''tools'', ''false'', []]]"

definition five_ring_tabletop :: tabletop where
  "five_ring_tabletop =
     \<lparr>foundSheetNames = [''Tab1''],
      sheets = (\<lambda>n. if n = Some ''Tab1''
                     then Some \<lparr>columnNames = header_row,
                                all_rows = map (zip header_row) five_ring_rows\<rparr>
                     else None),
      googleSheetName = ''Doc''\<rparr>"





section \<open>Properties\<close>

subsection \<open>Effects\<close>


lemma bind_ret [simp]: "bind (ret x) f = f x"
  by (simp add: bind_def ret_def)

lemma bind_throw [simp]: "bind (throw e) f = throw e"
  by (simp add: bind_def throw_def)

lemma bind_emit [simp]: "bind (emit ev) f = (ev # fst (f ()), snd (f ()))"
  by (simp add: bind_def emit_def)

lemma bind_pair_Inr [simp]: "bind (evs, Inr x) f = (evs @ fst (f x), snd (f x))"
  by (simp add: bind_def)

lemma bind_pair_Inl [simp]: "bind (evs, Inl e) f = (evs, Inl e)"
  by (simp add: bind_def)

lemma fst_ret [simp]: "fst (ret x) = []"
  by (simp add: ret_def)

lemma snd_ret [simp]: "snd (ret x) = Inr x"
  by (simp add: ret_def)

lemma fst_throw [simp]: "fst (throw e) = []"
  by (simp add: throw_def)

lemma snd_throw [simp]: "snd (throw e) = Inl e"
  by (simp add: throw_def)

lemma fst_emit [simp]: "fst (emit ev) = [ev]"
  by (simp add: emit_def)

lemma snd_emit [simp]: "snd (emit ev) = Inr ()"
  by (simp add: emit_def)

subsection \<open>Distinct ring names\<close>

lemma image_baseUniq: "f ` set (baseUniq f seen xs) = f ` set xs - set seen"
  by (induction xs arbitrary: seen) auto

lemma distinct_baseUniq: "distinct (map f (baseUniq f seen xs))"
  by (induction xs arbitrary: seen) (auto simp: image_baseUniq)

lemma length_uniqBy: "length (uniqBy xs f) = card (f ` set xs)"
proof -
  have "length (map f (uniqBy xs f)) = card (set (map f (uniqBy xs f)))"
    using distinct_baseUniq [of f "[]" xs] by (simp add: uniqBy_def distinct_card del: set_map)
  then show ?thesis by (simp add: uniqBy_def image_baseUniq)
qed

lemma takeWhile_baseUniq:
  "k \<notin> set seen \<Longrightarrow> k \<in> f ` set xs \<Longrightarrow>
   set (takeWhile (\<lambda>x. x \<noteq> k) (map f (baseUniq f seen xs)))
     = set (takeWhile (\<lambda>x. x \<noteq> k) (map f xs)) - set seen"
  by (induction xs arbitrary: seen) auto


subsection \<open>Lower-casing and the isNew flag\<close>


lemma of_char_toLowerChar:
  "(of_char (toLowerChar c) :: nat) =
     (if 65 \<le> (of_char c :: nat) \<and> (of_char c :: nat) \<le> 90 then of_char c + 32 else of_char c)"
  by (simp add: toLowerChar_def Let_def)

lemma toLowerChar_eq_iff:
  "toLowerChar c = d \<longleftrightarrow>
     (if 65 \<le> (of_char c :: nat) \<and> (of_char c :: nat) \<le> 90 then of_char c + 32 else of_char c)
       = (of_char d :: nat)"
  using of_char_eq_iff [of "toLowerChar c" d, where ?'a = nat]
  by (simp only: of_char_toLowerChar)

lemma toLowerChar_letter:
  assumes "(of_char l :: nat) = n" and "(of_char u :: nat) = n - 32" and "97 \<le> n" and "n \<le> 122"
  shows "toLowerChar c = l \<longleftrightarrow> c = l \<or> c = u"
proof -
  have l: "c = l \<longleftrightarrow> (of_char c :: nat) = n"
    using of_char_eq_iff [of c l, where ?'a = nat] assms(1) by (simp del: of_char_eq_iff)
  have u: "c = u \<longleftrightarrow> (of_char c :: nat) = n - 32"
    using of_char_eq_iff [of c u, where ?'a = nat] assms(2) by (simp del: of_char_eq_iff)
  have "toLowerChar c = l \<longleftrightarrow>
     (if 65 \<le> (of_char c :: nat) \<and> (of_char c :: nat) \<le> 90 then of_char c + 32 else of_char c) = n"
    using toLowerChar_eq_iff [of c l] assms(1) by (simp del: of_char_eq_iff)
  also have "\<dots> \<longleftrightarrow> (of_char c :: nat) = n \<or> (of_char c :: nat) = n - 32"
    using assms(3,4) by (cases "65 \<le> (of_char c :: nat) \<and> (of_char c :: nat) \<le> 90") auto
  finally show ?thesis by (simp only: l u)
qed

lemma toLowerChar_t: "toLowerChar c = CHR ''t'' \<longleftrightarrow> c = CHR ''t'' \<or> c = CHR ''T''"
  by (rule toLowerChar_letter [of _ 116]) simp_all

lemma toLowerChar_r: "toLowerChar c = CHR ''r'' \<longleftrightarrow> c = CHR ''r'' \<or> c = CHR ''R''"
  by (rule toLowerChar_letter [of _ 114]) simp_all

lemma toLowerChar_u: "toLowerChar c = CHR ''u'' \<longleftrightarrow> c = CHR ''u'' \<or> c = CHR ''U''"
  by (rule toLowerChar_letter [of _ 117]) simp_all

lemma toLowerChar_e: "toLowerChar c = CHR ''e'' \<longleftrightarrow> c = CHR ''e'' \<or> c = CHR ''E''"
  by (rule toLowerChar_letter [of _ 101]) simp_all


lemma toLowerCase_true:
  "toLowerCase s = ''true'' \<longleftrightarrow>
     (\<exists>a b c d. s = [a, b, c, d] \<and> a \<in> {CHR ''t'', CHR ''T''} \<and> b \<in> {CHR ''r'', CHR ''R''}
        \<and> c \<in> {CHR ''u'', CHR ''U''} \<and> d \<in> {CHR ''e'', CHR ''E''})"
proof -
  have "toLowerCase s = ''true'' \<longleftrightarrow>
      (\<exists>a b c d. s = [a, b, c, d] \<and> toLowerChar a = CHR ''t'' \<and> toLowerChar b = CHR ''r''
         \<and> toLowerChar c = CHR ''u'' \<and> toLowerChar d = CHR ''e'')"
    unfolding toLowerCase_def by (simp only: map_eq_Cons_conv map_is_Nil_conv) blast
  then show ?thesis
    by (simp only: toLowerChar_t toLowerChar_r toLowerChar_u toLowerChar_e insert_iff
        empty_iff simp_thms)
qed

lemma toLowerCase_examples:
  "toLowerCase ''True'' = ''true''" "toLowerCase ''TRUE'' = ''true''"
  "toLowerCase ''true'' = ''true''" "toLowerCase ''yes'' \<noteq> ''true''" "toLowerCase [] \<noteq> ''true''"
  by (simp_all add: toLowerCase_true)

text \<open>
  The spelling \<open>tRuE\<close> is none of \<open>True\<close>, \<open>TRUE\<close> and \<open>true\<close>, and the blip built from
  it is new.
\<close>

theorem isNew_other_spelling_is_true:
  "''tRuE'' \<noteq> ''True'' \<and> ''tRuE'' \<noteq> ''TRUE'' \<and> ''tRuE'' \<noteq> ''true''
   \<and> blip_isNew (new_Blip Map.empty (row ''a'' ''adopt'' ''tools'' ''tRuE''))"
  by (simp add: new_Blip_def row_def toLowerCase_true)

text \<open>
  C7. A blip is new exactly when the lower-cased raw \<open>isNew\<close> value is the literal
  \<open>true\<close>: \<open>True\<close>, \<open>TRUE\<close> and \<open>true\<close> give true, \<open>yes\<close> and the empty string give
  false, and the values that give true are the sixteen spellings of \<open>true\<close> in either
  case of each letter, nothing else.
\<close>

theorem isNew_lowercased_equals_true:
  "blip_isNew (new_Blip ringMap blip) = (toLowerCase (isNew blip) = ''true'')
   \<and> blip_isNew (new_Blip ringMap (blip\<lparr>isNew := ''True''\<rparr>))
   \<and> blip_isNew (new_Blip ringMap (blip\<lparr>isNew := ''TRUE''\<rparr>))
   \<and> blip_isNew (new_Blip ringMap (blip\<lparr>isNew := ''true''\<rparr>))
   \<and> blip_isNew (new_Blip ringMap (blip\<lparr>isNew := ''yes''\<rparr>)) = False
   \<and> blip_isNew (new_Blip ringMap (blip\<lparr>isNew := []\<rparr>)) = False
   \<and> (blip_isNew (new_Blip ringMap blip) \<longleftrightarrow>
        (\<exists>a b c d. isNew blip = [a, b, c, d] \<and> a \<in> {CHR ''t'', CHR ''T''}
           \<and> b \<in> {CHR ''r'', CHR ''R''} \<and> c \<in> {CHR ''u'', CHR ''U''}
           \<and> d \<in> {CHR ''e'', CHR ''E''}))"
  unfolding new_Blip_def
  using toLowerCase_true [of "isNew blip"]
  by (simp add: toLowerCase_examples)



subsection \<open>The ring loop\<close>

lemma each_ring_fits:
  "i + length rs \<le> maxRings \<Longrightarrow>
   each_ring i rs ringMap = (ring_events i rs, Inr (enter_rings i rs ringMap))"
proof (induction rs arbitrary: i ringMap)
  case Nil
  then show ?case by (simp add: ret_def)
next
  case (Cons r rs)
  then have "i \<noteq> maxRings" and "Suc i + length rs \<le> maxRings" by simp_all
  with Cons.IH [of "Suc i"] show ?case by simp
qed

lemma each_ring_too_many:
  "i \<le> maxRings \<Longrightarrow> maxRings < i + length rs \<Longrightarrow>
   each_ring i rs ringMap =
     (ring_events i (take (maxRings - i) rs), Inl (MalformedDataError [TOO_MANY_RINGS]))"
proof (induction rs arbitrary: i ringMap)
  case Nil
  then show ?case by simp
next
  case (Cons r rs)
  show ?case
  proof (cases "i = maxRings")
    case True
    then show ?thesis by (simp add: throw_def)
  next
    case False
    with Cons.prems have "Suc i \<le> maxRings" "maxRings < Suc i + length rs"
      and "maxRings - i = Suc (maxRings - Suc i)" by simp_all
    with Cons.IH [of "Suc i"] False show ?thesis by simp
  qed
qed

lemma enter_rings_apply:
  "distinct rs \<Longrightarrow>
   enter_rings i rs ringMap r =
     (if r \<in> set rs
      then Some \<lparr>ring_name = r, ring_order = i + length (takeWhile (\<lambda>x. x \<noteq> r) rs)\<rparr>
      else ringMap r)"
  by (induction rs arbitrary: i ringMap) auto

lemma model_object_ring_events: "filter model_object (ring_events i rs) = []"
  by (induction rs arbitrary: i) simp_all

lemma plotted_ring_events: "plotted (ring_events i rs) = []"
  by (induction rs arbitrary: i) simp_all

lemma plotRadar_too_many_rings:
  assumes "5 \<le> card (ring ` set blips)"
  shows "plotRadar deps innerHeight title blips currentRadarName alternativeRadars =
           ([SetDocumentTitle (display_title title), RemoveLoading]
              @ ring_events 0 (take 4 (map ring (uniqBy blips ring))),
            Inl (MalformedDataError [TOO_MANY_RINGS]))
         \<and> filter model_object
              (fst (plotRadar deps innerHeight title blips currentRadarName alternativeRadars)) = []
         \<and> plotted
              (fst (plotRadar deps innerHeight title blips currentRadarName alternativeRadars)) = []"
proof -
  have "maxRings < 0 + length (map ring (uniqBy blips ring))"
    using assms by (simp add: length_uniqBy maxRings_def)
  then have "each_ring 0 (map ring (uniqBy blips ring)) Map.empty =
      (ring_events 0 (take 4 (map ring (uniqBy blips ring))),
       Inl (MalformedDataError [TOO_MANY_RINGS]))"
    using each_ring_too_many [of 0 "map ring (uniqBy blips ring)" Map.empty]
    by (simp add: maxRings_def)
  then show ?thesis
    by (simp add: plotRadar_def model_object_ring_events plotted_ring_events)
qed


text \<open>
  C1. With five or more distinct ring names \<open>plotRadar\<close> throws the
  \<open>MalformedDataError\<close> of too many rings after it has set the title, removed the loading
  placeholder and created the first four rings: no quadrant, blip or radar has been created
  and nothing has been handed to the rendering collaborator.
\<close>

theorem too_many_rings_fail_before_model:
  assumes "5 \<le> card (ring ` set blips)"
  shows "plotRadar deps innerHeight title blips currentRadarName alternativeRadars =
           ([SetDocumentTitle (display_title title), RemoveLoading]
              @ ring_events 0 (take 4 (map ring (uniqBy blips ring))),
            Inl (MalformedDataError [TOO_MANY_RINGS]))
         \<and> filter model_object
              (fst (plotRadar deps innerHeight title blips currentRadarName alternativeRadars)) = []
         \<and> plotted
              (fst (plotRadar deps innerHeight title blips currentRadarName alternativeRadars)) = []"
  using assms by (rule plotRadar_too_many_rings)

theorem too_many_rings_witness:
  "5 \<le> card (ring ` set five_rings)
   \<and> plotRadar spec_collaborators 900 ''Radar.csv'' five_rings (Some ''Sheet1'') (Some [''Sheet1'']) =
       ([SetDocumentTitle ''Radar'', RemoveLoading, NewRing ''adopt'' 0, NewRing ''trial'' 1,
         NewRing ''assess'' 2, NewRing ''hold'' 3],
        Inl (MalformedDataError [TOO_MANY_RINGS]))"
proof -
  have h: "5 \<le> card (ring ` set five_rings)"
    by (simp add: five_rings_def row_def)
  show ?thesis
    using h too_many_rings_fail_before_model [OF h, of spec_collaborators 900 "''Radar.csv''" "Some ''Sheet1''"
        "Some [''Sheet1'']"]
    by (simp add: five_rings_def row_def uniqBy_def display_title_def endsWith_def)
qed


subsection \<open>Objects used as dictionaries\<close>

lemma map_of_js_put [simp]: "map_of (js_put obj k v) = (map_of obj)(k \<mapsto> v)"
  by (induction obj) (auto simp: fun_eq_iff)

lemma js_put_absent: "k \<notin> fst ` set obj \<Longrightarrow> js_put obj k v = obj @ [(k, v)]"
  by (induction obj) auto

lemma js_put_twice [simp]: "js_put (js_put obj k v) k v' = js_put obj k v'"
  by (induction obj) auto

lemma keys_js_put: "fst ` set (js_put obj k v) = insert k (fst ` set obj)"
proof -
  have "fst ` set (js_put obj k v) = dom (map_of (js_put obj k v))"
    by (simp only: dom_map_of_conv_image_fst)
  also have "\<dots> = insert k (dom (map_of obj))"
    by simp
  finally show ?thesis
    by (simp only: dom_map_of_conv_image_fst)
qed

lemma distinct_js_put: "distinct (map fst obj) \<Longrightarrow> distinct (map fst (js_put obj k v))"
  by (induction obj) (auto simp: keys_js_put)

lemma js_get_Own: "map_of obj k = Some v \<Longrightarrow> js_get obj k = Own v"
  by (simp add: js_get_def)

lemma js_get_Absent:
  "map_of obj k = None \<Longrightarrow> k \<notin> set object_prototype_keys \<Longrightarrow> js_get obj k = Absent"
  by (simp add: js_get_def)

lemma js_get_Inherited:
  "map_of obj k = None \<Longrightarrow> k \<in> set object_prototype_keys \<Longrightarrow> js_get obj k = Inherited"
  by (simp add: js_get_def)

lemma each_blip_step_own:
  "quadrant b \<notin> set object_prototype_keys \<Longrightarrow>
   each_blip deps ringMap (b # bs) qs =
     ((case map_of qs (quadrant b) of
         None \<Rightarrow> [NewQuadrant (capitalize deps (quadrant b))] | Some q \<Rightarrow> [])
        @ NewBlip (new_Blip ringMap b) # fst (each_blip deps ringMap bs (place deps ringMap qs b)),
      snd (each_blip deps ringMap bs (place deps ringMap qs b)))"
  by (cases "map_of qs (quadrant b)")
    (simp_all add: js_get_Own js_get_Absent place_def)

lemma each_blip_step_inherited:
  "quadrant b \<in> set object_prototype_keys \<Longrightarrow> map_of qs (quadrant b) = None \<Longrightarrow>
   each_blip deps ringMap (b # bs) qs = ([NewBlip (new_Blip ringMap b)], Inl TypeError)"
  by (simp add: js_get_Inherited throw_def)

subsection \<open>The blip loop\<close>

declare each_blip.simps(2) [simp del]

lemma each_blip_step:
  "js_get qs (quadrant b) \<noteq> Inherited \<Longrightarrow>
   each_blip deps ringMap (b # bs) qs =
     ((case map_of qs (quadrant b) of
         None \<Rightarrow> [NewQuadrant (capitalize deps (quadrant b))] | Some q \<Rightarrow> [])
        @ NewBlip (new_Blip ringMap b) # fst (each_blip deps ringMap bs (place deps ringMap qs b)),
      snd (each_blip deps ringMap bs (place deps ringMap qs b)))"
proof (cases "map_of qs (quadrant b)")
  case None
  moreover assume "js_get qs (quadrant b) \<noteq> Inherited"
  ultimately have "quadrant b \<notin> set object_prototype_keys"
    by (auto simp: js_get_def)
  then show ?thesis by (rule each_blip_step_own)
next
  case (Some q)
  then show ?thesis by (simp add: each_blip.simps js_get_Own place_def)
qed

lemma each_blip_inherited:
  "js_get qs (quadrant b) = Inherited \<Longrightarrow>
   each_blip deps ringMap (b # bs) qs = ([NewBlip (new_Blip ringMap b)], Inl TypeError)"
  by (simp add: each_blip.simps throw_def)

lemma each_blip_ok:
  "quadrant ` set bs \<inter> set object_prototype_keys = {} \<Longrightarrow>
   snd (each_blip deps ringMap bs qs) = Inr (foldl (place deps ringMap) qs bs)"
proof (induction bs arbitrary: qs)
  case Nil
  then show ?case by simp
next
  case (Cons b bs)
  then have "quadrant b \<notin> set object_prototype_keys"
    and "quadrant ` set bs \<inter> set object_prototype_keys = {}" by auto
  with Cons.IH [of "place deps ringMap qs b"] show ?case
    by (simp add: each_blip_step_own)
qed

lemma each_blip_Inr:
  "snd (each_blip deps ringMap bs qs) = Inr qs' \<Longrightarrow> qs' = foldl (place deps ringMap) qs bs"
proof (induction bs arbitrary: qs)
  case Nil
  then show ?case by simp
next
  case (Cons b bs)
  show ?case
  proof (cases "js_get qs (quadrant b) = Inherited")
    case True
    with Cons.prems show ?thesis by (simp add: each_blip_inherited)
  next
    case False
    with Cons.prems have "snd (each_blip deps ringMap bs (place deps ringMap qs b)) = Inr qs'"
      by (simp add: each_blip_step)
    with Cons.IH show ?thesis by simp
  qed
qed

lemma plotted_each_blip: "plotted (fst (each_blip deps ringMap bs qs)) = []"
proof (induction bs arbitrary: qs)
  case Nil
  then show ?case by simp
next
  case (Cons b bs)
  show ?case
  proof (cases "js_get qs (quadrant b) = Inherited")
    case True
    then show ?thesis by (simp add: each_blip_inherited)
  next
    case False
    with Cons.IH [of "place deps ringMap qs b"] show ?thesis
      by (simp add: each_blip_step split: option.split)
  qed
qed

lemma plotted_append [simp]: "plotted (xs @ ys) = plotted xs @ plotted ys"
  by (induction xs rule: plotted.induct) simp_all

lemma map_of_place:
  "map_of (place deps ringMap qs b) =
     (map_of qs)(quadrant b \<mapsto>
        Quadrant_add
          (case map_of qs (quadrant b) of
             None \<Rightarrow> new_Quadrant (capitalize deps (quadrant b)) | Some q \<Rightarrow> q)
          (new_Blip ringMap b))"
  by (simp add: place_def)

lemma keys_place: "fst ` set (place deps ringMap qs b) = insert (quadrant b) (fst ` set qs)"
  by (simp add: place_def keys_js_put)

lemma distinct_place: "distinct (map fst qs) \<Longrightarrow> distinct (map fst (place deps ringMap qs b))"
  by (simp add: place_def distinct_js_put)

lemma keys_foldl_place:
  "fst ` set (foldl (place deps ringMap) qs bs) = fst ` set qs \<union> quadrant ` set bs"
  by (induction bs arbitrary: qs) (auto simp: keys_place)

lemma distinct_foldl_place:
  "distinct (map fst qs) \<Longrightarrow> distinct (map fst (foldl (place deps ringMap) qs bs))"
  by (induction bs arbitrary: qs) (simp_all add: distinct_place)

lemma total_js_put_present:
  "map_of qs k = Some q \<Longrightarrow>
   total_blips (map snd (js_put qs k v)) + length (quadrant_blips q)
     = total_blips (map snd qs) + length (quadrant_blips v)"
  by (induction qs) (auto simp: total_blips_def)

lemma total_place: "total_blips (map snd (place deps ringMap qs b)) = Suc (total_blips (map snd qs))"
proof (cases "map_of qs (quadrant b)")
  case None
  then have "quadrant b \<notin> fst ` set qs"
    by (simp add: map_of_eq_None_iff)
  then show ?thesis
    using None
    by (simp add: place_def js_put_absent total_blips_def Quadrant_add_def new_Quadrant_def)
next
  case (Some q)
  then show ?thesis
    using total_js_put_present [OF Some, of "Quadrant_add q (new_Blip ringMap b)"]
    by (simp add: place_def Quadrant_add_def)
qed

lemma total_foldl_place:
  "total_blips (map snd (foldl (place deps ringMap) qs bs)) = total_blips (map snd qs) + length bs"
  by (induction bs arbitrary: qs) (simp_all add: total_place)

lemma map_of_foldl_place:
  "map_of (foldl (place deps ringMap) qs bs) k =
     (case map_of qs k of
        Some q \<Rightarrow>
          Some (q\<lparr>quadrant_blips :=
                   quadrant_blips q @ map (new_Blip ringMap) (filter (\<lambda>b. quadrant b = k) bs)\<rparr>)
      | None \<Rightarrow>
          if k \<in> quadrant ` set bs
          then Some \<lparr>quadrant_name = capitalize deps k,
                     quadrant_blips = map (new_Blip ringMap) (filter (\<lambda>b. quadrant b = k) bs)\<rparr>
          else None)"
proof (induction bs arbitrary: qs)
  case Nil
  then show ?case by (simp split: option.split)
next
  case (Cons b bs)
  show ?case
    by (simp add: Cons.IH map_of_place Quadrant_add_def new_Quadrant_def split: option.split)
qed

lemma mset_own_values: "mset (own_values obj) = mset (map snd obj)"
proof -
  let ?A = "filter_mset (\<lambda>kv. is_array_index (fst kv)) (mset obj)"
  let ?B = "filter_mset (\<lambda>kv. \<not> is_array_index (fst kv)) (mset obj)"
  have "mset (own_values obj) = image_mset snd ?A + image_mset snd ?B"
    by (simp add: own_values_def)
  also have "\<dots> = image_mset snd (mset obj)"
    by (metis image_mset_union multiset_partition)
  finally show ?thesis by simp
qed

lemma length_own_values: "length (own_values obj) = length obj"
  using mset_own_values [of obj] by (metis length_map size_mset)

lemma set_own_values: "set (own_values obj) = snd ` set obj"
  using mset_own_values [of obj] by (metis set_map set_mset_mset)

lemma total_own_values: "total_blips (own_values obj) = total_blips (map snd obj)"
proof -
  have "total_blips qs = sum_mset (image_mset (\<lambda>q. length (quadrant_blips q)) (mset qs))" for qs
    by (simp add: total_blips_def sum_mset_sum_list [symmetric])
  then show ?thesis by (simp add: mset_own_values)
qed

subsection \<open>plotRadar as a whole\<close>

lemma foldl_addQuadrant:
  "foldl addQuadrant r qs = r\<lparr>radar_quadrants := radar_quadrants r @ qs\<rparr>"
  by (induction qs arbitrary: r) (simp_all add: addQuadrant_def)

lemma foldl_addAlternative:
  "foldl addAlternative r names = r\<lparr>radar_alternatives := radar_alternatives r @ names\<rparr>"
  by (induction names arbitrary: r) (simp_all add: addAlternative_def)

lemma add_alternatives_eq:
  "add_alternatives radar alternativeRadars =
     (case alternativeRadars of
        None \<Rightarrow> throw TypeError
      | Some sheetNames \<Rightarrow> ret (foldl addAlternative radar sheetNames))"
  by (simp add: add_alternatives_def)

lemma set_current_eq:
  "set_current radar currentRadarName = ret (setCurrentSheet radar currentRadarName)"
  by (simp add: set_current_def)

lemma length_ring_names: "length (ring_names blips) = card (ring ` set blips)"
  by (simp add: ring_names_def length_uniqBy)

lemma distinct_ring_names: "distinct (ring_names blips)"
  by (simp add: ring_names_def uniqBy_def distinct_baseUniq)

lemma set_ring_names: "set (ring_names blips) = ring ` set blips"
  using image_baseUniq [of ring "[]" blips] by (simp add: ring_names_def uniqBy_def)

lemma position_ring_names:
  assumes "r \<in> ring ` set blips"
  shows "length (takeWhile (\<lambda>x. x \<noteq> r) (ring_names blips)) = first_position blips r"
proof -
  have "distinct (takeWhile (\<lambda>x. x \<noteq> r) (ring_names blips))"
    by (rule distinct_takeWhile) (rule distinct_ring_names)
  then have "length (takeWhile (\<lambda>x. x \<noteq> r) (ring_names blips))
      = card (set (takeWhile (\<lambda>x. x \<noteq> r) (ring_names blips)))"
    by (simp add: distinct_card)
  also have "set (takeWhile (\<lambda>x. x \<noteq> r) (ring_names blips))
      = set (takeWhile (\<lambda>x. x \<noteq> r) (map ring blips))"
    using takeWhile_baseUniq [of r "[]" ring blips] assms
    by (simp add: ring_names_def uniqBy_def)
  finally show ?thesis by (simp add: first_position_def)
qed

lemma ringMap_of_apply:
  "ringMap_of blips r =
     (if r \<in> ring ` set blips
      then Some \<lparr>ring_name = r, ring_order = first_position blips r\<rparr> else None)"
  using enter_rings_apply [OF distinct_ring_names, of 0 blips Map.empty r]
  by (simp add: ringMap_of_def set_ring_names position_ring_names)

lemma each_ring_ring_names:
  "card (ring ` set blips) \<le> 4 \<Longrightarrow>
   each_ring 0 (map ring (uniqBy blips ring)) Map.empty
     = (ring_events 0 (ring_names blips), Inr (ringMap_of blips))"
  using each_ring_fits [of 0 "ring_names blips" Map.empty]
  by (simp add: length_ring_names maxRings_def ringMap_of_def) (simp add: ring_names_def)

lemma plotRadar_fits:
  assumes "card (ring ` set blips) \<le> 4"
  shows "plotRadar deps innerHeight title blips currentRadarName alternativeRadars =
     (case snd (each_blip deps (ringMap_of blips) blips []) of
        Inl e \<Rightarrow>
          ([SetDocumentTitle (display_title title), RemoveLoading]
             @ ring_events 0 (ring_names blips) @ fst (each_blip deps (ringMap_of blips) blips []),
           Inl e)
      | Inr quadrants \<Rightarrow>
          (case alternativeRadars of
             None \<Rightarrow>
               ([SetDocumentTitle (display_title title), RemoveLoading]
                  @ ring_events 0 (ring_names blips)
                  @ fst (each_blip deps (ringMap_of blips) blips []) @ [NewRadar],
                Inl TypeError)
           | Some sheetNames \<Rightarrow>
               ([SetDocumentTitle (display_title title), RemoveLoading]
                  @ ring_events 0 (ring_names blips)
                  @ fst (each_blip deps (ringMap_of blips) blips [])
                  @ [NewRadar,
                     Plot (plot_size innerHeight)
                       \<lparr>radar_quadrants = own_values quadrants,
                        radar_alternatives = sheetNames,
                        radar_currentSheet = currentRadarName\<rparr>],
                Inr ())))"
  unfolding plotRadar_def each_ring_ring_names [OF assms]
  by (simp add: bind_def add_alternatives_eq set_current_eq foldl_addQuadrant
      foldl_addAlternative new_Radar_def setCurrentSheet_def
      split: sum.split option.split)

lemma plotRadar_ok:
  assumes "card (ring ` set blips) \<le> 4"
    and "quadrant ` set blips \<inter> set object_prototype_keys = {}"
  shows "plotRadar deps innerHeight title blips currentRadarName (Some sheetNames) =
     ([SetDocumentTitle (display_title title), RemoveLoading]
        @ ring_events 0 (ring_names blips)
        @ fst (each_blip deps (ringMap_of blips) blips [])
        @ [NewRadar, Plot (plot_size innerHeight) (radar_of deps blips currentRadarName sheetNames)],
      Inr ())"
  using each_blip_ok [OF assms(2), of deps "ringMap_of blips" "[]"]
  by (simp add: plotRadar_fits [OF assms(1)] radar_of_def quadrants_of_def)

lemma plotRadar_undefined_alternatives:
  assumes "card (ring ` set blips) \<le> 4"
    and "quadrant ` set blips \<inter> set object_prototype_keys = {}"
  shows "plotRadar deps innerHeight title blips currentRadarName None =
     ([SetDocumentTitle (display_title title), RemoveLoading]
        @ ring_events 0 (ring_names blips)
        @ fst (each_blip deps (ringMap_of blips) blips []) @ [NewRadar],
      Inl TypeError)"
  using each_blip_ok [OF assms(2), of deps "ringMap_of blips" "[]"]
  by (simp add: plotRadar_fits [OF assms(1)])

lemma plotted_plotRadar_ok:
  assumes "card (ring ` set blips) \<le> 4"
    and "quadrant ` set blips \<inter> set object_prototype_keys = {}"
  shows "plotted (fst (plotRadar deps innerHeight title blips currentRadarName (Some sheetNames)))
     = [(plot_size innerHeight, radar_of deps blips currentRadarName sheetNames)]"
  by (simp add: plotRadar_ok [OF assms] plotted_ring_events plotted_each_blip)

lemma plotRadar_Inr:
  assumes "snd (plotRadar deps innerHeight title blips currentRadarName alternativeRadars) = Inr ()"
  shows "\<exists>sheetNames. alternativeRadars = Some sheetNames
     \<and> card (ring ` set blips) \<le> 4
     \<and> plotted (fst (plotRadar deps innerHeight title blips currentRadarName alternativeRadars))
         = [(plot_size innerHeight, radar_of deps blips currentRadarName sheetNames)]"
proof (cases "card (ring ` set blips) \<le> 4")
  case False
  then have "5 \<le> card (ring ` set blips)" by simp
  from plotRadar_too_many_rings [OF this, of deps innerHeight title currentRadarName
      alternativeRadars]
    assms show ?thesis by simp
next
  case True
  show ?thesis
  proof (cases "snd (each_blip deps (ringMap_of blips) blips [])")
    case (Inl e)
    with assms show ?thesis by (simp add: plotRadar_fits [OF True])
  next
    case (Inr quadrants)
    then have q: "quadrants = quadrants_of deps blips"
      using each_blip_Inr [of deps "ringMap_of blips" blips "[]" quadrants]
      by (simp add: quadrants_of_def)
    show ?thesis
    proof (cases alternativeRadars)
      case None
      with assms Inr show ?thesis by (simp add: plotRadar_fits [OF True])
    next
      case (Some sheetNames)
      with Inr q True show ?thesis
        by (simp add: plotRadar_fits [OF True] radar_of_def plotted_ring_events
            plotted_each_blip)
    qed
  qed
qed

lemma plotRadar_undefined_never_plots:
  "snd (plotRadar deps innerHeight title blips currentRadarName None) \<noteq> Inr ()
   \<and> plotted (fst (plotRadar deps innerHeight title blips currentRadarName None)) = []"
proof (cases "card (ring ` set blips) \<le> 4")
  case False
  then have "5 \<le> card (ring ` set blips)" by simp
  from plotRadar_too_many_rings [OF this, of deps innerHeight title currentRadarName None]
  show ?thesis by (simp add: plotted_ring_events)
next
  case True
  show ?thesis
    by (cases "snd (each_blip deps (ringMap_of blips) blips [])")
      (simp_all add: plotRadar_fits [OF True] plotted_ring_events plotted_each_blip)
qed

subsection \<open>The radar that is plotted\<close>

lemma map_of_quadrants_of:
  "map_of (quadrants_of deps blips) k =
     (if k \<in> quadrant ` set blips
      then Some \<lparr>quadrant_name = capitalize deps k,
                 quadrant_blips =
                   map (new_Blip (ringMap_of blips)) (filter (\<lambda>b. quadrant b = k) blips)\<rparr>
      else None)"
  by (simp add: quadrants_of_def map_of_foldl_place)

lemma distinct_quadrants_of: "distinct (map fst (quadrants_of deps blips))"
  by (simp add: quadrants_of_def distinct_foldl_place)

lemma keys_quadrants_of: "fst ` set (quadrants_of deps blips) = quadrant ` set blips"
  by (simp add: quadrants_of_def keys_foldl_place)

lemma length_quadrants_of: "length (quadrants_of deps blips) = card (quadrant ` set blips)"
proof -
  have "length (map fst (quadrants_of deps blips)) = card (set (map fst (quadrants_of deps blips)))"
    using distinct_quadrants_of [of deps blips] by (simp add: distinct_card del: set_map)
  then show ?thesis by (simp add: keys_quadrants_of)
qed

lemma length_radar_quadrants:
  "length (radar_quadrants (radar_of deps blips currentRadarName sheetNames))
     = card (quadrant ` set blips)"
  by (simp add: radar_of_def length_own_values length_quadrants_of)

lemma total_radar_of:
  "total_blips (radar_quadrants (radar_of deps blips currentRadarName sheetNames)) = length blips"
proof -
  have "total_blips (map snd ([] :: (string \<times> Quadrant) list)) = 0"
    by (simp add: total_blips_def)
  with total_foldl_place [of deps "ringMap_of blips" "[]" blips] show ?thesis
    by (simp add: radar_of_def total_own_values quadrants_of_def)
qed

lemma set_radar_quadrants:
  "set (radar_quadrants (radar_of deps blips currentRadarName sheetNames)) =
     (\<lambda>k. \<lparr>quadrant_name = capitalize deps k,
            quadrant_blips =
              map (new_Blip (ringMap_of blips)) (filter (\<lambda>b. quadrant b = k) blips)\<rparr>)
       ` quadrant ` set blips"
proof -
  have "set (radar_quadrants (radar_of deps blips currentRadarName sheetNames))
      = ran (map_of (quadrants_of deps blips))"
    using ran_distinct [OF distinct_quadrants_of, of deps blips]
    by (simp add: radar_of_def set_own_values)
  also have "\<dots> = (\<lambda>k. \<lparr>quadrant_name = capitalize deps k,
            quadrant_blips =
              map (new_Blip (ringMap_of blips)) (filter (\<lambda>b. quadrant b = k) blips)\<rparr>)
       ` quadrant ` set blips"
    unfolding ran_def by (auto simp: map_of_quadrants_of split: if_splits)
  finally show ?thesis .
qed

lemma blip_ring_exact:
  "b \<in> set blips \<Longrightarrow>
   blip_ring (new_Blip (ringMap_of blips) b)
     = Some \<lparr>ring_name = ring b, ring_order = first_position blips (ring b)\<rparr>"
  by (simp add: new_Blip_def ringMap_of_apply)

lemma takeWhile_stops: "x \<in> set xs \<Longrightarrow> length (takeWhile (\<lambda>y. y \<noteq> x) xs) < length xs"
  by (induction xs) auto

lemma first_position_less:
  assumes "r \<in> ring ` set blips"
  shows "first_position blips r < card (ring ` set blips)"
proof -
  from assms have "r \<in> set (ring_names blips)" by (simp add: set_ring_names)
  then have "length (takeWhile (\<lambda>x. x \<noteq> r) (ring_names blips)) < length (ring_names blips)"
    by (rule takeWhile_stops)
  then show ?thesis
    using assms by (simp add: position_ring_names length_ring_names)
qed

lemma plotRadar_counts:
  assumes "card (ring ` set blips) \<le> 4"
    and "quadrant ` set blips \<inter> set object_prototype_keys = {}"
  shows "snd (plotRadar deps innerHeight title blips currentRadarName (Some sheetNames)) = Inr ()
     \<and> plotted (fst (plotRadar deps innerHeight title blips currentRadarName (Some sheetNames)))
         = [(plot_size innerHeight, radar_of deps blips currentRadarName sheetNames)]
     \<and> length (radar_quadrants (radar_of deps blips currentRadarName sheetNames))
         = card (quadrant ` set blips)
     \<and> total_blips (radar_quadrants (radar_of deps blips currentRadarName sheetNames)) = length blips
     \<and> length (ring_names blips) = card (ring ` set blips)
     \<and> set (ring_names blips) = ring ` set blips
     \<and> (\<forall>r \<in> ring ` set blips.
          ringMap_of blips r = Some \<lparr>ring_name = r, ring_order = first_position blips r\<rparr>
          \<and> first_position blips r < 4)"
proof -
  have "first_position blips r < 4" if "r \<in> ring ` set blips" for r
    using first_position_less [OF that] assms(1) by simp
  then show ?thesis
    by (simp add: plotRadar_ok [OF assms] plotted_plotRadar_ok [OF assms]
        length_radar_quadrants total_radar_of length_ring_names set_ring_names
        ringMap_of_apply plotted_ring_events plotted_each_blip)
qed

subsection \<open>Claims about plotRadar\<close>

text \<open>
  C4. A quadrant value that names a property every object inherits, such as
  \<open>constructor\<close>, is found in the empty \<open>quadrants\<close> object: no Quadrant is created for
  it, the lookup of \<open>add\<close> on what was found fails, and \<open>plotRadar\<close> throws a
  \<open>TypeError\<close> on one row with one ring name, where a radar with one quadrant and one blip
  is due.
\<close>

theorem quadrant_named_constructor_throws:
  "card (ring ` set inherited_name) = 1
   \<and> plotRadar spec_collaborators 900 ''Radar'' inherited_name (Some ''Sheet1'') (Some [''Sheet1'']) =
       ([SetDocumentTitle ''Radar'', RemoveLoading, NewRing ''adopt'' 0,
         NewBlip \<lparr>blip_name = ''a'',
                  blip_ring = Some \<lparr>ring_name = ''adopt'', ring_order = 0\<rparr>,
                  blip_isNew = True, blip_topic = [], blip_description = []\<rparr>],
        Inl TypeError)"
proof -
  have "card (ring ` set inherited_name) = 1"
    by (simp add: inherited_name_def row_def)
  moreover have "plotRadar spec_collaborators 900 ''Radar'' inherited_name (Some ''Sheet1'') (Some [''Sheet1'']) =
       ([SetDocumentTitle ''Radar'', RemoveLoading, NewRing ''adopt'' 0,
         NewBlip \<lparr>blip_name = ''a'',
                  blip_ring = Some \<lparr>ring_name = ''adopt'', ring_order = 0\<rparr>,
                  blip_isNew = True, blip_topic = [], blip_description = []\<rparr>],
        Inl TypeError)"
    by code_simp
  ultimately show ?thesis by simp
qed

text \<open>
  Two rows whose quadrants are \<open>Tools\<close> and \<open>tools\<close> have the same lower-case form
  and still land in two Quadrants, both displayed as \<open>Tools\<close>: the key is not
  lower-cased.
\<close>

theorem quadrant_key_not_lowercased:
  "toLowerCase ''Tools'' = toLowerCase ''tools''
   \<and> map (\<lambda>pr. map quadrant_name (radar_quadrants (snd pr)))
        (plotted (fst (plotRadar spec_collaborators 900 ''Radar'' mixed_case (Some ''Sheet1'') (Some [''Sheet1'']))))
       = [[''Tools'', ''Tools'']]
   \<and> map (\<lambda>pr. map (\<lambda>q. map blip_name (quadrant_blips q)) (radar_quadrants (snd pr)))
        (plotted (fst (plotRadar spec_collaborators 900 ''Radar'' mixed_case (Some ''Sheet1'') (Some [''Sheet1'']))))
       = [[[''a''], [''b'']]]"
  by code_simp

text \<open>
  C8. Whenever \<open>plotRadar\<close> runs to the end and plots, the Quadrants of the radar are
  exactly one per distinct raw quadrant string: the Quadrant of the key \<open>k\<close> is named
  \<open>capitalize k\<close> and holds the blips of the rows whose quadrant is \<open>k\<close> character for
  character. The ring of every blip is the Ring whose name is the row's ring string as it
  came, so ring names that differ in case are different Rings.
\<close>

theorem quadrant_grouping_and_ring_lookup:
  assumes "snd (plotRadar deps innerHeight title blips currentRadarName alternativeRadars)
             = Inr ()"
  shows "\<exists>sheetNames.
           alternativeRadars = Some sheetNames
         \<and> plotted (fst (plotRadar deps innerHeight title blips currentRadarName
                            alternativeRadars))
             = [(plot_size innerHeight, radar_of deps blips currentRadarName sheetNames)]
         \<and> set (radar_quadrants (radar_of deps blips currentRadarName sheetNames)) =
             (\<lambda>k. \<lparr>quadrant_name = capitalize deps k,
                    quadrant_blips =
                      map (new_Blip (ringMap_of blips)) (filter (\<lambda>b. quadrant b = k) blips)\<rparr>)
               ` quadrant ` set blips
         \<and> length (radar_quadrants (radar_of deps blips currentRadarName sheetNames))
             = card (quadrant ` set blips)
         \<and> (\<forall>b \<in> set blips.
              blip_ring (new_Blip (ringMap_of blips) b)
                = Some \<lparr>ring_name = ring b, ring_order = first_position blips (ring b)\<rparr>)"
proof -
  from plotRadar_Inr [OF assms] obtain sheetNames where
    "alternativeRadars = Some sheetNames"
    and "plotted (fst (plotRadar deps innerHeight title blips currentRadarName
        alternativeRadars))
      = [(plot_size innerHeight, radar_of deps blips currentRadarName sheetNames)]"
    by blast
  then show ?thesis
    by (simp add: set_radar_quadrants length_radar_quadrants blip_ring_exact)
qed

theorem quadrant_grouping_witness:
  "snd (plotRadar spec_collaborators 900 ''Radar'' mixed_case (Some ''Sheet1'')
          (Some [''Sheet1''])) = Inr ()
   \<and> plotted (fst (plotRadar spec_collaborators 900 ''Radar'' mixed_case (Some ''Sheet1'')
                     (Some [''Sheet1''])))
       = [(767, radar_of spec_collaborators mixed_case (Some ''Sheet1'') [''Sheet1''])]
   \<and> length (radar_quadrants
               (radar_of spec_collaborators mixed_case (Some ''Sheet1'') [''Sheet1''])) = 2"
proof -
  have h1: "card (ring ` set mixed_case) \<le> 4"
    by (simp add: mixed_case_def row_def)
  have h2: "quadrant ` set mixed_case \<inter> set object_prototype_keys = {}"
    by (simp add: mixed_case_def row_def object_prototype_keys_def)
  have h: "snd (plotRadar spec_collaborators 900 ''Radar'' mixed_case (Some ''Sheet1'')
      (Some [''Sheet1''])) = Inr ()"
    by (simp add: plotRadar_ok [OF h1 h2])
  have c: "card (quadrant ` set mixed_case) = 2"
    by (simp add: mixed_case_def row_def)
  show ?thesis
    using h c quadrant_grouping_and_ring_lookup [OF h]
    by (auto simp: plot_size_def)
qed

text \<open>
  C9. The two guards change nothing: the alternatives are always iterated and the current
  sheet is always set. A call with \<open>alternativeRadars\<close> undefined never plots; when the
  model has been built it throws a \<open>TypeError\<close>, and with a list of sheet names the radar
  that is plotted carries that list and the current name it was given, defined or not.
\<close>

theorem alternatives_and_current_sheet_unconditional:
  "add_alternatives radar alternativeRadars =
     (case alternativeRadars of
        None \<Rightarrow> throw TypeError
      | Some names \<Rightarrow> ret (foldl addAlternative radar names))
   \<and> set_current radar currentRadarName = ret (setCurrentSheet radar currentRadarName)
   \<and> snd (plotRadar deps innerHeight title blips currentRadarName None) \<noteq> Inr ()
   \<and> plotted (fst (plotRadar deps innerHeight title blips currentRadarName None)) = []
   \<and> (card (ring ` set blips) \<le> 4 \<and> quadrant ` set blips \<inter> set object_prototype_keys = {}
        \<longrightarrow> snd (plotRadar deps innerHeight title blips currentRadarName None) = Inl TypeError
          \<and> (\<exists>plotted_radar.
                plotted (fst (plotRadar deps innerHeight title blips currentRadarName
                                (Some sheetNames)))
                  = [(plot_size innerHeight, plotted_radar)]
                \<and> radar_alternatives plotted_radar = sheetNames
                \<and> radar_currentSheet plotted_radar = currentRadarName))"
  using plotRadar_undefined_never_plots [of deps innerHeight title blips currentRadarName]
  by (auto simp: add_alternatives_eq set_current_eq plotRadar_undefined_alternatives
      plotted_plotRadar_ok radar_of_def)

theorem alternatives_and_current_sheet_witness:
  "card (ring ` set mixed_case) \<le> 4
   \<and> quadrant ` set mixed_case \<inter> set object_prototype_keys = {}
   \<and> snd (plotRadar spec_collaborators 900 ''Radar'' mixed_case None None) = Inl TypeError
   \<and> map (\<lambda>pr. (radar_alternatives (snd pr), radar_currentSheet (snd pr)))
        (plotted (fst (plotRadar spec_collaborators 900 ''Radar'' mixed_case None (Some [''Sheet1'', ''Sheet2'']))))
       = [([''Sheet1'', ''Sheet2''], None)]"
proof -
  have h1: "card (ring ` set mixed_case) \<le> 4"
    by (simp add: mixed_case_def row_def)
  have h2: "quadrant ` set mixed_case \<inter> set object_prototype_keys = {}"
    by (simp add: mixed_case_def row_def object_prototype_keys_def)
  show ?thesis
    using h1 h2
      alternatives_and_current_sheet_unconditional [of new_Radar None None spec_collaborators 900 "''Radar''" mixed_case
        "[''Sheet1'', ''Sheet2'']"]
    by auto
qed

subsection \<open>The ingestion callbacks\<close>

lemma snd_bind_eq_Inr:
  "snd (bind m f) = Inr y \<longleftrightarrow> (\<exists>x. snd m = Inr x \<and> snd (f x) = Inr y)"
  by (cases "snd m") (simp_all add: bind_def)

lemma fst_bind_Inr: "snd m = Inr x \<Longrightarrow> fst (bind m f) = fst m @ fst (f x)"
  by (simp add: bind_def)

lemma fst_verify [simp]: "fst (verify r) = []"
  by (cases r) (simp_all add: verify_def)

lemma snd_verify_Inr [simp]: "snd (verify r) = Inr u \<longleftrightarrow> r = None"
  by (cases r) (simp_all add: verify_def)

lemma fst_lift [simp]: "fst (lift r) = []"
  by (simp add: lift_def)

lemma snd_lift [simp]: "snd (lift r) = r"
  by (simp add: lift_def)

lemma forEach_same:
  "fst m = [] \<Longrightarrow> forEach (\<lambda>_. m) xs = (if xs = [] then ret () else m)"
proof (induction xs)
  case Nil
  then show ?case by simp
next
  case (Cons x xs)
  show ?case
  proof (cases "snd m")
    case (Inl e)
    with Cons.prems have "m = ([], Inl e)" by (simp add: prod_eq_iff)
    then show ?thesis by simp
  next
    case (Inr u)
    with Cons.prems have m: "m = ([], Inr ())" by (simp add: prod_eq_iff)
    with Cons show ?thesis by (simp add: ret_def)
  qed
qed

lemma fst_map_each_lift [simp]: "fst (map_each (\<lambda>x. lift (f x)) xs) = []"
  by (induction xs) (simp_all add: bind_def split: sum.split)

lemma length_map_each:
  "snd (map_each (\<lambda>x. lift (f x)) xs) = Inr ys \<Longrightarrow> length ys = length xs"
proof (induction xs arbitrary: ys)
  case Nil
  then show ?case by simp
next
  case (Cons x xs)
  from Cons.prems obtain y ys' where "snd (map_each (\<lambda>x. lift (f x)) xs) = Inr ys'"
    and "ys = y # ys'"
    by (auto simp: snd_bind_eq_Inr)
  with Cons.IH show ?case by simp
qed

lemma snd_plotErrorMessage [simp]: "snd (plotErrorMessage e) = Inr ()"
  by (cases e) (simp_all add: plotErrorMessage_def)

lemma snd_try_catch_plotErrorMessage [simp]: "snd (try_catch m plotErrorMessage) = Inr ()"
  by (cases "snd m") (simp_all add: try_catch_def)

lemma try_catch_Inl:
  "snd m = Inl e \<Longrightarrow> try_catch m h = (fst m @ fst (h e), snd (h e))"
  by (simp add: try_catch_def)

lemma createBlips_catches_all: "snd (createBlips deps innerHeight sheetName tabletop) = Inr ()"
  by (simp add: createBlips_def)

lemma CSVDocument_createBlips_catches_all:
  "snd (CSVDocument_createBlips deps innerHeight url data) = Inr ()"
  by (simp add: CSVDocument_createBlips_def)

lemma createBlipsForProtectedSheet_header:
  "createBlipsForProtectedSheet deps innerHeight sheetName documentTitle (header # rows)
     sheetNames =
     bind (bind (verify (verifyContent deps header)) (\<lambda>_. verify (verifyHeaders deps header)))
       (\<lambda>_.
     bind (map_each (\<lambda>blip. lift (sanitizeForProtectedSheet deps blip (Some header))) rows)
       (\<lambda>blips.
     plotRadar deps innerHeight
       (documentTitle @ '' - ''
          @ js_string (if falsy sheetName then first sheetNames else sheetName))
       blips (if falsy sheetName then first sheetNames else sheetName) (Some sheetNames)))"
proof -
  have "fst (bind (verify (verifyContent deps header))
      (\<lambda>_. verify (verifyHeaders deps header))) = []"
    by (cases "verifyContent deps header"; cases "verifyHeaders deps header")
      (simp_all add: verify_def)
  from forEach_same [OF this, of "header # rows"] show ?thesis
    by (simp add: createBlipsForProtectedSheet_def first_def Let_def)
qed

subsection \<open>Claims about the protected-sheet callback\<close>

text \<open>
  C10. When the protected-sheet callback plots, the fetched rows are a header row followed
  by the data rows: both checks of the validator passed on the header, every data row was
  sanitized against that header, and the radar that is plotted holds one blip per data
  row, that is one less than the number of fetched rows.
\<close>

theorem protected_sheet_header_is_not_a_blip:
  assumes "snd (createBlipsForProtectedSheet deps innerHeight sheetName documentTitle values
                  sheetNames) = Inr ()"
    and "values \<noteq> []"
  shows "\<exists>header rows blips.
           values = header # rows
         \<and> verifyContent deps header = None \<and> verifyHeaders deps header = None
         \<and> map_each (\<lambda>blip. lift (sanitizeForProtectedSheet deps blip (Some header))) rows
             = ([], Inr blips)
         \<and> length blips = length values - 1
         \<and> plotted (fst (createBlipsForProtectedSheet deps innerHeight sheetName documentTitle
                            values sheetNames))
             = [(plot_size innerHeight,
                 radar_of deps blips (if falsy sheetName then first sheetNames else sheetName)
                   sheetNames)]
         \<and> total_blips
              (radar_quadrants
                 (radar_of deps blips (if falsy sheetName then first sheetNames else sheetName)
                    sheetNames))
             = length values - 1"
proof -
  let ?name = "if falsy sheetName then first sheetNames else sheetName"
  from assms(2) obtain header rows where v: "values = header # rows"
    by (cases "values") auto
  let ?check = "bind (verify (verifyContent deps header))
      (\<lambda>_. verify (verifyHeaders deps header))"
  let ?rows = "map_each (\<lambda>blip. lift (sanitizeForProtectedSheet deps blip (Some header))) rows"
  from assms(1) v obtain blips where
    c: "snd ?check = Inr ()" and
    m: "snd ?rows = Inr blips" and
    p: "snd (plotRadar deps innerHeight (documentTitle @ '' - '' @ js_string ?name) blips ?name
              (Some sheetNames)) = Inr ()"
    by (auto simp: createBlipsForProtectedSheet_header snd_bind_eq_Inr)
  from c have ok: "verifyContent deps header = None" "verifyHeaders deps header = None"
    by (auto simp: snd_bind_eq_Inr)
  then have c0: "?check = ([], Inr ())"
    by (simp add: verify_def ret_def)
  from m have m0: "?rows = ([], Inr blips)"
    by (simp add: prod_eq_iff)
  from m have len: "length blips = length rows"
    by (rule length_map_each)
  from plotRadar_Inr [OF p] have
    "plotted (fst (plotRadar deps innerHeight (documentTitle @ '' - '' @ js_string ?name) blips ?name
        (Some sheetNames))) = [(plot_size innerHeight, radar_of deps blips ?name sheetNames)]"
    by simp
  then have pl: "plotted (fst (createBlipsForProtectedSheet deps innerHeight sheetName
        documentTitle values sheetNames))
      = [(plot_size innerHeight, radar_of deps blips ?name sheetNames)]"
    unfolding v createBlipsForProtectedSheet_header c0 m0 by simp
  show ?thesis
    using v ok m0 len pl by (simp add: total_radar_of)
qed

theorem protected_sheet_witness:
  "snd (createBlipsForProtectedSheet spec_collaborators 900 None ''Doc'' protected_values
          [''Tab1'', ''Tab2'']) = Inr ()
   \<and> protected_values \<noteq> []
   \<and> length protected_values = 3
   \<and> (\<exists>blips.
         plotted (fst (createBlipsForProtectedSheet spec_collaborators 900 None ''Doc''
                         protected_values [''Tab1'', ''Tab2'']))
           = [(767, radar_of spec_collaborators blips (Some ''Tab1'') [''Tab1'', ''Tab2''])]
         \<and> total_blips (radar_quadrants (radar_of spec_collaborators blips (Some ''Tab1'') [''Tab1'', ''Tab2'']))
             = 2)"
proof -
  have h1: "snd (createBlipsForProtectedSheet spec_collaborators 900 None ''Doc''
      protected_values [''Tab1'', ''Tab2'']) = Inr ()"
    by code_simp
  have h2: "protected_values \<noteq> []"
    by (simp add: protected_values_def)
  have h3: "length protected_values = 3"
    by (simp add: protected_values_def)
  from protected_sheet_header_is_not_a_blip [OF h1 h2] h3 obtain blips where
    "plotted (fst (createBlipsForProtectedSheet spec_collaborators 900 None ''Doc''
        protected_values [''Tab1'', ''Tab2'']))
      = [(plot_size 900, radar_of spec_collaborators blips (if falsy None then first [''Tab1'', ''Tab2''] else None)
            [''Tab1'', ''Tab2''])]"
    and "total_blips (radar_quadrants
        (radar_of spec_collaborators blips (if falsy None then first [''Tab1'', ''Tab2''] else None)
           [''Tab1'', ''Tab2''])) = 2"
    by auto
  then show ?thesis
    using h1 h2 h3 by (auto simp: plot_size_def falsy_def first_def)
qed

text \<open>
  C3. On a protected sheet whose rows name five rings the \<open>MalformedDataError\<close> of
  \<open>plotRadar\<close> leaves \<open>createBlipsForProtectedSheet\<close>, which has no \<open>try\<close>, and no error
  page is shown; on the same rows the public-sheet callback and the CSV callback catch it
  and show the error message.
\<close>

theorem protected_callback_lets_exception_out:
  "createBlipsForProtectedSheet spec_collaborators 900 None ''Doc'' (header_row # five_ring_rows)
     [''Tab1'']
     = ([SetDocumentTitle ''Doc - Tab1'', RemoveLoading, NewRing ''adopt'' 0, NewRing ''trial'' 1,
         NewRing ''assess'' 2, NewRing ''hold'' 3],
        Inl (MalformedDataError [TOO_MANY_RINGS]))
   \<and> createBlips spec_collaborators 900 None five_ring_tabletop
     = ([SetDocumentTitle ''Doc - Tab1'', RemoveLoading, NewRing ''adopt'' 0, NewRing ''trial'' 1,
         NewRing ''assess'' 2, NewRing ''hold'' 3, SetDocumentTitle default_title,
         RemoveLoading, ShowErrorMessage [Literal sheet_not_found_text, TOO_MANY_RINGS]],
        Inr ())
   \<and> CSVDocument_createBlips spec_collaborators 900 ''https://example.com/radar.csv''
       \<lparr>columns = header_row, csv_rows = map (zip header_row) five_ring_rows\<rparr>
     = ([SetDocumentTitle ''radar'', RemoveLoading, NewRing ''adopt'' 0, NewRing ''trial'' 1,
         NewRing ''assess'' 2, NewRing ''hold'' 3, SetDocumentTitle default_title,
         RemoveLoading, ShowErrorMessage [Literal sheet_not_found_text, TOO_MANY_RINGS]],
        Inr ())"
  by code_simp

subsection \<open>Claims about the source-resolution flow\<close>


lemma plotErrorMessage_pair: "plotErrorMessage e = (fst (plotErrorMessage e), Inr ())"
  by (simp add: prod_eq_iff)











subsection \<open>Claims about the locator\<close>






lemma DomainName_line_separator:
  "DomainName ''x://y%E2%80%A8://z'' = Inr (Some (''y'' @ [CHR 0xE2, CHR 0x80, CHR 0xA8] @ '':''))
   \<and> DomainName ''sheetId=x://y%E2%80%A8://docs.google.com''
       = Inr (Some (''y'' @ [CHR 0xE2, CHR 0x80, CHR 0xA8] @ '':''))"
  by code_simp





text \<open>
  C6. A query string that carries a URL under another parameter name gives \<open>build\<close> a
  domain name and no \<open>sheetId\<close>, and \<open>queryParams.sheetId.endsWith\<close> throws a
  \<open>TypeError\<close>; a \<open>sheetId\<close> with a stray percent sign makes \<open>decodeURIComponent\<close> throw a
  \<open>URIError\<close> in \<open>DomainName\<close>. Neither is caught, and the form is not shown.
\<close>

theorem missing_or_malformed_sheetId_throws:
  "GoogleSheetInput_build spec_collaborators ''?url=https://example.com/a''
     ''http://localhost:8080/?url=https://example.com/a'' = ([], Inl TypeError)
   \<and> GoogleSheetInput_build spec_collaborators ''?sheetId=%''
     ''http://localhost:8080/?sheetId=%'' = ([], Inl URIError)"
  by code_simp
end
